theory Spec2Isabelle
  imports Complex_Main
begin

section \<open>The manual model adapter (src/agents/models/manual.py)\<close>

text \<open>
  The module renders the conversation context for a human operator through a print
  function, obtains the reply from a provider, and wraps the reply in the two response
  shapes of the host framework. The embedding below follows the module top to bottom.
  Python strings are \<open>string\<close>, Python's unbounded integers are \<open>int\<close>, an exception is a
  value of \<open>error\<close>, and everything a call does beyond returning is a change of an
  explicit \<open>world\<close>.
\<close>

subsection \<open>Python values, objects and attribute lookup\<close>

text \<open>
  The attributes that the formatters read hold a string or \<open>None\<close>. An object is its
  class name (\<open>obj.__class__.__name__\<close>) and its attribute dictionary; an attribute that
  the object does not have is a key outside the dictionary, which is not the same as an
  attribute that is there and holds \<open>None\<close>.
\<close>

datatype pyval = PyNone | PyStr string

record pyobject =
  class_name :: string
  attrs :: "string \<rightharpoonup> pyval"

type_synonym Tool = pyobject
type_synonym Handoff = pyobject

datatype error =
    AttributeError string string   \<comment> \<open>class name, attribute name\<close>
  | EOFError
  | CancelledError
  | StopIteration
  | StopAsyncIteration
  | RuntimeError string            \<comment> \<open>its message\<close>
  | Raised string                  \<comment> \<open>any other exception of a collaborator\<close>

text \<open>Truthiness (\<open>if x:\<close>, \<open>x or y\<close>): \<open>None\<close> and the empty string are false.\<close>

fun truthy :: "pyval \<Rightarrow> bool" where
  "truthy PyNone = False"
| "truthy (PyStr s) = (s \<noteq> [])"

definition py_or :: "pyval \<Rightarrow> pyval \<Rightarrow> pyval" where
  "py_or a b = (if truthy a then a else b)"

text \<open>What an f-string writes for \<open>{x}\<close>.\<close>

fun py_format :: "pyval \<Rightarrow> string" where
  "py_format PyNone = ''None''"
| "py_format (PyStr s) = s"

text \<open>\<open>getattr(obj, name, default)\<close> and the plain access \<open>obj.name\<close>, which raises.\<close>

definition getattr_default :: "pyobject \<Rightarrow> string \<Rightarrow> pyval \<Rightarrow> pyval" where
  "getattr_default obj name dflt = (case attrs obj name of Some v \<Rightarrow> v | None \<Rightarrow> dflt)"

definition getattr :: "pyobject \<Rightarrow> string \<Rightarrow> error + pyval" where
  "getattr obj name =
     (case attrs obj name of
        Some v \<Rightarrow> Inr v
      | None \<Rightarrow> Inl (AttributeError (class_name obj) name))"

subsection \<open>The context formatter\<close>

definition tool_name :: "Tool \<Rightarrow> pyval" where
  "tool_name tool = getattr_default tool ''name'' (PyStr (class_name tool))"

definition tool_description :: "Tool \<Rightarrow> pyval" where
  "tool_description tool =
     py_or (getattr_default tool ''description'' PyNone)
           (getattr_default tool ''tool_description'' PyNone)"

text \<open>
  The loop of \<open>_format_tools\<close> appends one line per tool to \<open>formatted\<close>, which is the
  accumulator here. Nothing in the loop body can raise, but the function is given the
  same result type as \<open>format_handoffs\<close>, so that not raising is a statement about it.
\<close>

definition tool_line :: "Tool \<Rightarrow> string" where
  "tool_line tool =
     (let name = tool_name tool; description = tool_description tool
      in if truthy description
         then ''  - '' @ py_format name @ '': '' @ py_format description
         else ''  - '' @ py_format name)"

fun format_tools_loop :: "string list \<Rightarrow> Tool list \<Rightarrow> error + string list" where
  "format_tools_loop formatted [] = Inr formatted"
| "format_tools_loop formatted (tool # tools) =
     format_tools_loop (formatted @ [tool_line tool]) tools"

definition format_tools :: "Tool list \<Rightarrow> error + string list" where
  "format_tools tools = format_tools_loop [] tools"

text \<open>
  \<open>_format_handoffs\<close> reads \<open>tool_description\<close>, \<open>agent_name\<close> and \<open>tool_name\<close> by plain
  attribute access, in the order in which the loop body evaluates them: the description
  first, then the two names inside the f-string, left to right.
\<close>

definition handoff_line :: "Handoff \<Rightarrow> error + string" where
  "handoff_line handoff =
     (case getattr handoff ''tool_description'' of
        Inl e \<Rightarrow> Inl e
      | Inr description \<Rightarrow>
          (case getattr handoff ''agent_name'' of
             Inl e \<Rightarrow> Inl e
           | Inr agent_name \<Rightarrow>
               (case getattr handoff ''tool_name'' of
                  Inl e \<Rightarrow> Inl e
                | Inr tname \<Rightarrow>
                    if truthy description
                    then Inr (''  - '' @ py_format agent_name @ '' via `'' @ py_format tname
                              @ ''`: '' @ py_format description)
                    else Inr (''  - '' @ py_format agent_name @ '' via `'' @ py_format tname
                              @ ''`''))))"

fun format_handoffs_loop :: "string list \<Rightarrow> Handoff list \<Rightarrow> error + string list" where
  "format_handoffs_loop formatted [] = Inr formatted"
| "format_handoffs_loop formatted (handoff # handoffs) =
     (case handoff_line handoff of
        Inl e \<Rightarrow> Inl e
      | Inr line \<Rightarrow> format_handoffs_loop (formatted @ [line]) handoffs)"

definition format_handoffs :: "Handoff list \<Rightarrow> error + string list" where
  "format_handoffs handoffs = format_handoffs_loop [] handoffs"

subsection \<open>The world of a call\<close>

text \<open>
  The conversation input is a string or a list of item dictionaries. Lists and
  dictionaries are mutable objects that the caller keeps a reference to, so they live
  in a store and the input holds the address of its list. The store is the sequence of
  the objects allocated so far, an address is a position in it, and a new object goes
  to the end.
\<close>

type_synonym addr = nat

datatype heap_obj =
    ListObj "addr list"                \<comment> \<open>a list of references to items\<close>
  | ItemObj "(string \<times> string) list"   \<comment> \<open>an item dictionary, keys in insertion order\<close>

type_synonym heap = "heap_obj list"

definition heap_lookup :: "heap \<Rightarrow> addr \<Rightarrow> heap_obj option" where
  "heap_lookup hp a = (if a < length hp then Some (hp ! a) else None)"

text \<open>Every object of \<open>hp\<close> is in \<open>hp'\<close> at its address, unchanged.\<close>

definition heap_extends :: "heap \<Rightarrow> heap \<Rightarrow> bool" where
  "heap_extends hp hp' = (take (length hp) hp' = hp)"

datatype conv_input = InputStr string | InputList addr

text \<open>
  \<open>printed\<close> is the sequence of lines passed to \<open>print_fn\<close>, in call order;
  \<open>provider_calls\<close> counts the invocations of the reply provider; \<open>stdin\<close> holds the
  lines that \<open>input\<close> will read and \<open>console\<close> what \<open>input\<close> wrote as its prompt.
\<close>

record world =
  printed :: "string list"
  provider_calls :: nat
  heap :: heap
  stdin :: "string list"
  console :: "string list"

type_synonym 'a io = "world \<Rightarrow> (error + 'a) \<times> world"

definition return_io :: "'a \<Rightarrow> 'a io" where
  "return_io x w = (Inr x, w)"

definition lift_result :: "error + 'a \<Rightarrow> 'a io" where
  "lift_result r w = (r, w)"

definition bind_io :: "'a io \<Rightarrow> ('a \<Rightarrow> 'b io) \<Rightarrow> 'b io" where
  "bind_io m f w = (case m w of (Inl e, w') \<Rightarrow> (Inl e, w') | (Inr x, w') \<Rightarrow> f x w')"

definition then_io :: "'a io \<Rightarrow> 'b io \<Rightarrow> 'b io" where
  "then_io m k = bind_io m (\<lambda>_. k)"

text \<open>
  What Python's runtime does to an exception that leaves the body of an \<open>async def\<close>.
  A coroutine cannot let a \<open>StopIteration\<close> out: it is replaced by a \<open>RuntimeError\<close>.
  An asynchronous generator can let out neither a \<open>StopIteration\<close> nor a
  \<open>StopAsyncIteration\<close>. Every other exception, \<open>CancelledError\<close> among them, leaves
  as it is.
\<close>

fun coroutine_exit :: "error \<Rightarrow> error" where
  "coroutine_exit StopIteration = RuntimeError ''coroutine raised StopIteration''"
| "coroutine_exit e = e"

fun agen_exit :: "error \<Rightarrow> error" where
  "agen_exit StopIteration = RuntimeError ''async generator raised StopIteration''"
| "agen_exit StopAsyncIteration = RuntimeError ''async generator raised StopAsyncIteration''"
| "agen_exit e = e"

definition as_coroutine :: "'a io \<Rightarrow> 'a io" where
  "as_coroutine body w =
     (case body w of
        (Inl e, w') \<Rightarrow> (Inl (coroutine_exit e), w')
      | (Inr x, w') \<Rightarrow> (Inr x, w'))"

text \<open>
  \<open>ManualPrintFn\<close>: any callable taking one string. The call is recorded in \<open>printed\<close>;
  the callable returns (\<open>None\<close>) or raises (\<open>Some e\<close>). The print function of the tests,
  \<open>printed.append\<close>, always returns.
\<close>

type_synonym ManualPrintFn = "string \<Rightarrow> error option"

definition call_print :: "ManualPrintFn \<Rightarrow> string \<Rightarrow> unit io" where
  "call_print print_fn line w =
     (let w' = w\<lparr>printed := printed w @ [line]\<rparr>
      in case print_fn line of None \<Rightarrow> (Inr (), w') | Some e \<Rightarrow> (Inl e, w'))"

text \<open>\<open>for line in lines: print_fn(line)\<close>\<close>

fun print_lines :: "ManualPrintFn \<Rightarrow> string list \<Rightarrow> unit io" where
  "print_lines print_fn [] = return_io ()"
| "print_lines print_fn (line # lines) =
     then_io (call_print print_fn line) (print_lines print_fn lines)"

text \<open>
  \<open>ManualResponseProvider\<close>: a zero-argument asynchronous callable. What its n-th
  invocation does, returning a text or raising (cancellation is the error
  \<open>CancelledError\<close> raised at the \<open>await\<close>), is a function of n; the provider of the
  tests, \<open>responses.pop(0)\<close>, is one.
\<close>

type_synonym ManualResponseProvider = "nat \<Rightarrow> error + string"

definition await_provider :: "ManualResponseProvider \<Rightarrow> string io" where
  "await_provider provider w =
     (provider (provider_calls w), w\<lparr>provider_calls := Suc (provider_calls w)\<rparr>)"

text \<open>\<open>asyncio.to_thread(input, "Manual response: ")\<close>: one line of standard input.\<close>

definition default_response_provider :: "string io" where
  "default_response_provider w =
     (let w' = w\<lparr>provider_calls := Suc (provider_calls w),
                 console := console w @ [''Manual response: '']\<rparr>
      in case stdin w of
           [] \<Rightarrow> (Inl EOFError, w')
         | line # rest \<Rightarrow> (Inr line, w'\<lparr>stdin := rest\<rparr>))"

text \<open>
  The collaborators that the module imports and that are not part of it: the
  normalization \<open>ItemHelpers.input_to_new_input_list\<close> of the host framework, which
  returns a reference to the normalized list or raises, and \<open>pformat\<close> of the standard
  library, which reads the object it renders. They are parameters of the model.
\<close>

type_synonym ResponsePromptParam = "(string \<times> string) list"

record host =
  input_to_new_input_list :: "conv_input \<Rightarrow> heap \<Rightarrow> (error + addr) \<times> heap"
  pformat_items :: "heap \<Rightarrow> addr \<Rightarrow> string"
  pformat_prompt :: "ResponsePromptParam \<Rightarrow> string"

definition normalize_io :: "host \<Rightarrow> conv_input \<Rightarrow> addr io" where
  "normalize_io h inp w =
     (case input_to_new_input_list h inp (heap w) of (r, hp) \<Rightarrow> (r, w\<lparr>heap := hp\<rparr>))"

definition print_pformat_items :: "host \<Rightarrow> ManualPrintFn \<Rightarrow> addr \<Rightarrow> unit io" where
  "print_pformat_items h print_fn normalized_input w =
     call_print print_fn (pformat_items h (heap w) normalized_input) w"

subsection \<open>The interaction driver\<close>

text \<open>
  \<open>manual_prompt_interaction\<close>, an \<open>async def\<close>, statement by statement. \<open>system_instructions\<close> is
  \<open>str | None\<close> and is tested for truth; \<open>prompt\<close> is tested with \<open>is not None\<close>; \<open>tools\<close>
  and \<open>handoffs\<close> are sequences tested for truth, that is for being non-empty. A
  function object is always true, so \<open>response_provider or _default_response_provider\<close>
  is the injected provider whenever one was given.
\<close>

definition manual_prompt_interaction ::
  "host \<Rightarrow> string option \<Rightarrow> conv_input \<Rightarrow> Tool list \<Rightarrow> Handoff list \<Rightarrow>
   ResponsePromptParam option \<Rightarrow> ManualPrintFn \<Rightarrow> ManualResponseProvider option \<Rightarrow> string io"
where
  "manual_prompt_interaction h system_instructions inp tools handoffs prompt print_fn
     response_provider =
   as_coroutine (
   bind_io (normalize_io h inp) (\<lambda>normalized_input.
   then_io (call_print print_fn ''=== Manual model interaction ==='')
  (then_io (case system_instructions of
              Some text \<Rightarrow>
                if text \<noteq> []
                then then_io (call_print print_fn ''System instructions:'')
                             (call_print print_fn text)
                else call_print print_fn ''System instructions: <none>''
            | None \<Rightarrow> call_print print_fn ''System instructions: <none>'')
  (then_io (call_print print_fn ''Conversation items:'')
  (then_io (print_pformat_items h print_fn normalized_input)
  (then_io (case prompt of
              Some p \<Rightarrow>
                then_io (call_print print_fn ''Prompt configuration:'')
                        (call_print print_fn (pformat_prompt h p))
            | None \<Rightarrow> return_io ())
  (then_io (if tools \<noteq> []
            then then_io (call_print print_fn ''Available tools:'')
                         (bind_io (lift_result (format_tools tools)) (print_lines print_fn))
            else call_print print_fn ''Available tools: none'')
  (then_io (if handoffs \<noteq> []
            then then_io (call_print print_fn ''Available handoffs:'')
                         (bind_io (lift_result (format_handoffs handoffs))
                                  (print_lines print_fn))
            else call_print print_fn ''Available handoffs: none'')
  (then_io (call_print print_fn ''Provide the next assistant message.'')
           (case response_provider of
              Some provider \<Rightarrow> await_provider provider
            | None \<Rightarrow> default_response_provider))))))))))"

subsection \<open>The response builder\<close>

record ResponseOutputText =
  segment_text :: string      \<comment> \<open>the field \<open>text\<close>\<close>
  segment_type :: string      \<comment> \<open>the field \<open>type\<close>\<close>
  annotations :: "string list"

record ResponseOutputMessage =
  message_id :: string
  content :: "ResponseOutputText list"
  role :: string
  status :: string
  message_type :: string

record InputTokensDetails =
  cached_tokens :: int

record OutputTokensDetails =
  reasoning_tokens :: int

record Usage =
  requests :: int
  input_tokens :: int
  input_tokens_details :: InputTokensDetails
  output_tokens :: int
  output_tokens_details :: OutputTokensDetails
  total_tokens :: int

record ResponseUsage =
  resp_input_tokens :: int
  resp_output_tokens :: int
  resp_total_tokens :: int
  resp_input_tokens_details :: InputTokensDetails
  resp_output_tokens_details :: OutputTokensDetails

record ModelResponse =
  model_output :: "ResponseOutputMessage list"   \<comment> \<open>the field \<open>output\<close>\<close>
  model_usage :: Usage                          \<comment> \<open>the field \<open>usage\<close>\<close>
  response_id :: string

record Response =
  resp_id :: string
  created_at :: int
  resp_model :: string
  resp_object :: string
  resp_output :: "ResponseOutputMessage list"
  tool_choice :: string
  resp_tools :: "pyobject list"
  top_p :: "real option"
  resp_usage :: ResponseUsage
  parallel_tool_calls :: bool

record ResponseCompletedEvent =
  event_type :: string
  response :: Response
  sequence_number :: int

definition RESPONSE_ID :: string where
  "RESPONSE_ID = ''manual-response''"

definition MESSAGE_ID :: string where
  "MESSAGE_ID = ''manual-message''"

text \<open>
  Modelled from the spec: the class \<open>Usage\<close> of the host framework (\<open>..usage\<close>) is not
  among the sources. The spec describes the usage record of a manual reply as all-zero
  counters (input, output and total tokens, cached tokens, reasoning tokens), "no real
  usage is incurred", and the tests read \<open>requests\<close>, \<open>input_tokens\<close>, \<open>output_tokens\<close> and
  \<open>total_tokens\<close> as 0; \<open>Usage()\<close> is that record.
\<close>

definition Usage_default :: Usage where
  "Usage_default =
     \<lparr>requests = 0, input_tokens = 0,
      input_tokens_details = \<lparr>cached_tokens = 0\<rparr>,
      output_tokens = 0,
      output_tokens_details = \<lparr>reasoning_tokens = 0\<rparr>,
      total_tokens = 0\<rparr>"

definition build_output_message :: "string \<Rightarrow> ResponseOutputMessage" where
  "build_output_message txt =
     \<lparr>message_id = MESSAGE_ID,
      content = [\<lparr>segment_text = txt, segment_type = ''output_text'', annotations = []\<rparr>],
      role = ''assistant'',
      status = ''completed'',
      message_type = ''message''\<rparr>"

definition usage_to_response_usage :: "Usage \<Rightarrow> ResponseUsage" where
  "usage_to_response_usage u =
     \<lparr>resp_input_tokens = input_tokens u,
      resp_output_tokens = output_tokens u,
      resp_total_tokens = total_tokens u,
      resp_input_tokens_details = \<lparr>cached_tokens = cached_tokens (input_tokens_details u)\<rparr>,
      resp_output_tokens_details =
        \<lparr>reasoning_tokens = reasoning_tokens (output_tokens_details u)\<rparr>\<rparr>"

definition build_completed_event :: "ResponseOutputMessage \<Rightarrow> Usage \<Rightarrow> ResponseCompletedEvent"
where
  "build_completed_event message u =
     (let resp =
        \<lparr>resp_id = RESPONSE_ID,
         created_at = 0,
         resp_model = ''manual'',
         resp_object = ''response'',
         resp_output = [message],
         tool_choice = ''none'',
         resp_tools = [],
         top_p = None,
         resp_usage = usage_to_response_usage u,
         parallel_tool_calls = False\<rparr>
      in \<lparr>event_type = ''response.completed'', response = resp, sequence_number = 0\<rparr>)"

subsection \<open>The model adapter\<close>

text \<open>
  Both methods take the same ten arguments, by keyword in the tests; they are the
  fields of \<open>call_args\<close>. Five of them are deleted on the first line of each method.
\<close>

datatype ModelTracing = DISABLED | ENABLED | ENABLED_WITHOUT_DATA

record call_args =
  arg_system_instructions :: "string option"
  arg_input :: conv_input
  arg_model_settings :: "(string \<times> string) list"
  arg_tools :: "Tool list"
  arg_output_schema :: "string option"
  arg_handoffs :: "Handoff list"
  arg_tracing :: ModelTracing
  arg_previous_response_id :: "string option"
  arg_conversation_id :: "string option"
  arg_prompt :: "ResponsePromptParam option"

record ManualModel =
  self_print_fn :: ManualPrintFn
  self_response_provider :: "ManualResponseProvider option"

definition get_response :: "host \<Rightarrow> ManualModel \<Rightarrow> call_args \<Rightarrow> ModelResponse io" where
  "get_response h self args =
     as_coroutine (
     bind_io (manual_prompt_interaction h
                (arg_system_instructions args) (arg_input args) (arg_tools args)
                (arg_handoffs args) (arg_prompt args)
                (self_print_fn self) (self_response_provider self))
       (\<lambda>response_text.
          let message = build_output_message response_text;
              u = Usage_default
          in return_io \<lparr>model_output = [message], model_usage = u,
                         response_id = RESPONSE_ID\<rparr>))"

text \<open>
  \<open>stream_response\<close> contains a \<open>yield\<close>, so it is an asynchronous generator function:
  calling it runs none of its body and returns a generator object, which holds the
  arguments and where the body stands. \<open>stream_response_body\<close> is the body up to the
  \<open>yield\<close>, with the yielded event as its value; after the \<open>yield\<close> the body ends.
\<close>

datatype gen_state = Created | Suspended | Closed

record async_generator =
  gen_self :: ManualModel
  gen_args :: call_args
  gen_state :: gen_state

definition stream_response :: "ManualModel \<Rightarrow> call_args \<Rightarrow> async_generator io" where
  "stream_response self args =
     return_io \<lparr>gen_self = self, gen_args = args, gen_state = Created\<rparr>"

definition stream_response_body :: "host \<Rightarrow> ManualModel \<Rightarrow> call_args \<Rightarrow> ResponseCompletedEvent io"
where
  "stream_response_body h self args =
     bind_io (manual_prompt_interaction h
                (arg_system_instructions args) (arg_input args) (arg_tools args)
                (arg_handoffs args) (arg_prompt args)
                (self_print_fn self) (self_response_provider self))
       (\<lambda>response_text.
          let message = build_output_message response_text;
              u = Usage_default
          in return_io (build_completed_event message u))"

text \<open>
  One step of the iteration, \<open>__anext__\<close>: a new generator runs the body to the \<open>yield\<close>
  and hands out the event, or is closed by the exception that leaves the body, which
  the caller gets as \<open>agen_exit\<close> makes it; a generator suspended at the \<open>yield\<close> runs
  off the end of the body; a closed one stays closed. The \<open>StopAsyncIteration\<close> by
  which the generator itself ends the iteration is the value \<open>None\<close>.
\<close>

definition anext ::
  "host \<Rightarrow> async_generator \<Rightarrow> world \<Rightarrow>
   (error + ResponseCompletedEvent option) \<times> async_generator \<times> world"
where
  "anext h g w =
     (case gen_state g of
        Created \<Rightarrow>
          (case stream_response_body h (gen_self g) (gen_args g) w of
             (Inl e, w') \<Rightarrow> (Inl (agen_exit e), g\<lparr>gen_state := Closed\<rparr>, w')
           | (Inr event, w') \<Rightarrow> (Inr (Some event), g\<lparr>gen_state := Suspended\<rparr>, w'))
      | Suspended \<Rightarrow> (Inr None, g\<lparr>gen_state := Closed\<rparr>, w)
      | Closed \<Rightarrow> (Inr None, g, w))"

text \<open>
  The consumer of the tests, \<open>[event async for event in model.stream_response(...)]\<close>:
  it asks for the next event until the generator stops.
\<close>

fun gen_rank :: "gen_state \<Rightarrow> nat" where
  "gen_rank Created = 2"
| "gen_rank Suspended = 1"
| "gen_rank Closed = 0"

function async_for_collect ::
  "host \<Rightarrow> async_generator \<Rightarrow> ResponseCompletedEvent list \<Rightarrow> world \<Rightarrow>
   (error + ResponseCompletedEvent list) \<times> world"
where
  "async_for_collect h g events w =
     (case anext h g w of
        (Inl e, g', w') \<Rightarrow> (Inl e, w')
      | (Inr None, g', w') \<Rightarrow> (Inr events, w')
      | (Inr (Some event), g', w') \<Rightarrow> async_for_collect h g' (events @ [event]) w')"
  by pat_completeness auto
termination
proof (relation "measure (\<lambda>(h, g, events, w). gen_rank (gen_state g))")
  show "wf (measure (\<lambda>(h, g, events, w). gen_rank (gen_state g)))"
    by simp
next
  fix h g events w x y b event and g' :: async_generator and w' :: world
  assume "(x, y) = anext h g w" and "x = Inr b" and "b = Some event" and "(g', w') = y"
  then have "anext h g w = (Inr (Some event), g', w')"
    by simp
  then have "gen_state g = Created \<and> gen_state g' = Suspended"
    by (auto simp: anext_def split: gen_state.splits prod.splits sum.splits)
  then show "((h, g', events @ [event], w'), (h, g, events, w))
             \<in> measure (\<lambda>(h, g, events, w). gen_rank (gen_state g))"
    by simp
qed

definition list_of_stream :: "host \<Rightarrow> ManualModel \<Rightarrow> call_args \<Rightarrow> ResponseCompletedEvent list io"
where
  "list_of_stream h self args =
     bind_io (stream_response self args) (\<lambda>g. async_for_collect h g [])"

subsection \<open>The normalization of the host framework\<close>

text \<open>
  Modelled from the spec: \<open>ItemHelpers.input_to_new_input_list\<close> belongs to the host
  framework (\<open>..items\<close>) and is not among the sources. The spec has the input, "either a
  single string or an ordered sequence of structured conversation items", "first
  passed through a normalization step that produces a canonical ordered sequence of
  items", says that the step "either succeeds or raises", and that a conversation item
  is "role + content", "supplied by caller, never mutated". So a string becomes a new
  list of one new item holding the text, a list becomes a new list of copies of its
  items, anything else raises, and no existing object is written to.
\<close>

fun item_copies :: "heap \<Rightarrow> addr list \<Rightarrow> heap_obj list option" where
  "item_copies hp [] = Some []"
| "item_copies hp (r # rs) =
     (case heap_lookup hp r of
        Some (ItemObj d) \<Rightarrow>
          (case item_copies hp rs of
             Some copies \<Rightarrow> Some (ItemObj d # copies)
           | None \<Rightarrow> None)
      | _ \<Rightarrow> None)"

definition spec_input_to_new_input_list :: "conv_input \<Rightarrow> heap \<Rightarrow> (error + addr) \<times> heap"
where
  "spec_input_to_new_input_list inp hp =
     (case inp of
        InputStr s \<Rightarrow>
          (Inr (Suc (length hp)),
           hp @ [ItemObj [(''content'', s), (''role'', ''user'')], ListObj [length hp]])
      | InputList a \<Rightarrow>
          (case heap_lookup hp a of
             Some (ListObj refs) \<Rightarrow>
               (case item_copies hp refs of
                  Some copies \<Rightarrow>
                    (Inr (length hp + length copies),
                     hp @ copies @ [ListObj [length hp ..< length hp + length copies]])
                | None \<Rightarrow> (Inl (Raised ''TypeError''), hp))
           | _ \<Rightarrow> (Inl (Raised ''TypeError''), hp)))"

subsection \<open>The fixtures of the tests\<close>

text \<open>
  The objects that tests/agents/models/test_manual_model.py builds: the function tool,
  the handoff, the provider that pops its replies from a list, the print function that
  appends to a list, and the empty world. \<open>show_items\<close> and \<open>show_prompt\<close> stand in for
  \<open>pformat\<close> where a theorem is instantiated; no theorem depends on what they write.
\<close>

definition test_tool :: Tool where
  "test_tool =
     \<lparr>class_name = ''FunctionTool'',
      attrs = [''name'' \<mapsto> PyStr ''test_tool'', ''description'' \<mapsto> PyStr ''A simple helper.'']\<rparr>"

definition test_handoff :: Handoff where
  "test_handoff =
     \<lparr>class_name = ''Handoff'',
      attrs = [''tool_name'' \<mapsto> PyStr ''transfer_to_helper'',
               ''tool_description'' \<mapsto> PyStr ''Transfer to helper agent.'',
               ''agent_name'' \<mapsto> PyStr ''Helper'']\<rparr>"

definition pop_provider :: "string list \<Rightarrow> ManualResponseProvider" where
  "pop_provider responses n =
     (if n < length responses then Inr (responses ! n) else Inl (Raised ''IndexError''))"

definition append_print_fn :: ManualPrintFn where
  "append_print_fn = (\<lambda>line. None)"

fun show_item :: "heap_obj \<Rightarrow> string" where
  "show_item (ItemObj d) = concat (map (\<lambda>(k, v). k @ '': '' @ v @ ''; '') d)"
| "show_item (ListObj refs) = ''[...]''"

definition show_items :: "heap \<Rightarrow> addr \<Rightarrow> string" where
  "show_items hp a =
     (case heap_lookup hp a of
        Some (ListObj refs) \<Rightarrow>
          concat (map (\<lambda>r. case heap_lookup hp r of Some obj \<Rightarrow> show_item obj | None \<Rightarrow> []) refs)
      | _ \<Rightarrow> [])"

definition show_prompt :: "ResponsePromptParam \<Rightarrow> string" where
  "show_prompt p = concat (map (\<lambda>(k, v). k @ '': '' @ v @ ''; '') p)"

definition test_host :: host where
  "test_host =
     \<lparr>input_to_new_input_list = spec_input_to_new_input_list,
      pformat_items = show_items,
      pformat_prompt = show_prompt\<rparr>"

definition test_model :: "string list \<Rightarrow> ManualModel" where
  "test_model responses =
     \<lparr>self_print_fn = append_print_fn,
      self_response_provider = Some (pop_provider responses)\<rparr>"

definition empty_world :: world where
  "empty_world = \<lparr>printed = [], provider_calls = 0, heap = [], stdin = [], console = []\<rparr>"

text \<open>The call of \<open>test_get_response_manual_model\<close>.\<close>

definition get_args :: call_args where
  "get_args =
     \<lparr>arg_system_instructions = Some ''Be concise.'',
      arg_input = InputStr ''Hello'',
      arg_model_settings = [],
      arg_tools = [test_tool],
      arg_output_schema = None,
      arg_handoffs = [test_handoff],
      arg_tracing = DISABLED,
      arg_previous_response_id = None,
      arg_conversation_id = None,
      arg_prompt = None\<rparr>"

text \<open>
  The call of \<open>test_stream_response_manual_model\<close>, in the world where the caller has
  built its input list \<open>[{"role": "user", "content": "Ping"}]\<close>.
\<close>

definition ping_world :: world where
  "ping_world =
     empty_world\<lparr>heap := [ItemObj [(''role'', ''user''), (''content'', ''Ping'')], ListObj [0]]\<rparr>"

definition stream_args :: call_args where
  "stream_args =
     \<lparr>arg_system_instructions = None,
      arg_input = InputList 1,
      arg_model_settings = [],
      arg_tools = [],
      arg_output_schema = None,
      arg_handoffs = [],
      arg_tracing = DISABLED,
      arg_previous_response_id = None,
      arg_conversation_id = None,
      arg_prompt = None\<rparr>"

subsection \<open>The formatter as the specification words it\<close>

text \<open>
  The specification's tool descriptor is a name and an optional description: the
  description field is there (a string) or not (missing, or \<open>None\<close>). \<open>claimed_tool_line\<close>
  follows its sentence: the description is looked up under the two field names, the
  first that is there wins, and the line carries it whenever there is one.
\<close>

definition shown_name :: "Tool \<Rightarrow> string" where
  "shown_name tool =
     (case attrs tool ''name'' of Some v \<Rightarrow> py_format v | None \<Rightarrow> class_name tool)"

fun str_field :: "pyval option \<Rightarrow> string option" where
  "str_field (Some (PyStr s)) = Some s"
| "str_field (Some PyNone) = None"
| "str_field None = None"

definition claimed_description :: "Tool \<Rightarrow> string option" where
  "claimed_description tool =
     (case str_field (attrs tool ''description'') of
        Some d \<Rightarrow> Some d
      | None \<Rightarrow> str_field (attrs tool ''tool_description''))"

definition claimed_tool_line :: "Tool \<Rightarrow> string" where
  "claimed_tool_line tool =
     (case claimed_description tool of
        Some d \<Rightarrow> ''  - '' @ shown_name tool @ '': '' @ d
      | None \<Rightarrow> ''  - '' @ shown_name tool)"

text \<open>
  The same with the one change that the code asks for: a field counts only when it
  holds a non-empty string.
\<close>

fun nonempty_field :: "pyval option \<Rightarrow> string option" where
  "nonempty_field (Some (PyStr s)) = (if s = [] then None else Some s)"
| "nonempty_field (Some PyNone) = None"
| "nonempty_field None = None"

definition found_description :: "Tool \<Rightarrow> string option" where
  "found_description tool =
     (case nonempty_field (attrs tool ''description'') of
        Some d \<Rightarrow> Some d
      | None \<Rightarrow> nonempty_field (attrs tool ''tool_description''))"

definition display_line :: "Tool \<Rightarrow> string" where
  "display_line tool =
     (case found_description tool of
        Some d \<Rightarrow> ''  - '' @ shown_name tool @ '': '' @ d
      | None \<Rightarrow> ''  - '' @ shown_name tool)"

text \<open>A handoff that has the three attributes that \<open>_format_handoffs\<close> reads.\<close>

definition has_handoff_attrs :: "Handoff \<Rightarrow> bool" where
  "has_handoff_attrs handoff =
     (attrs handoff ''tool_description'' \<noteq> None \<and> attrs handoff ''agent_name'' \<noteq> None
      \<and> attrs handoff ''tool_name'' \<noteq> None)"

text \<open>
  The attribute that a handoff lacks, in the order in which \<open>_format_handoffs\<close> reads
  the three.
\<close>

definition missing_attr :: "Handoff \<Rightarrow> string" where
  "missing_attr handoff =
     (if attrs handoff ''tool_description'' = None then ''tool_description''
      else if attrs handoff ''agent_name'' = None then ''agent_name''
      else ''tool_name'')"

text \<open>
  A function tool made from a function without a docstring: its description is the
  empty string. And two objects that lack attributes: a tool without a name and
  without a description, and a handoff without \<open>tool_description\<close>.
\<close>

definition undocumented_tool :: Tool where
  "undocumented_tool =
     \<lparr>class_name = ''FunctionTool'',
      attrs = [''name'' \<mapsto> PyStr ''test_tool'', ''description'' \<mapsto> PyStr []]\<rparr>"

definition bare_tool :: Tool where
  "bare_tool = \<lparr>class_name = ''CustomTool'', attrs = Map.empty\<rparr>"

definition silent_handoff :: Handoff where
  "silent_handoff =
     \<lparr>class_name = ''Handoff'',
      attrs = [''tool_name'' \<mapsto> PyStr ''transfer_to_helper'',
               ''tool_description'' \<mapsto> PyStr [],
               ''agent_name'' \<mapsto> PyStr ''Helper'']\<rparr>"

definition bare_handoff :: Handoff where
  "bare_handoff =
     \<lparr>class_name = ''Transfer'',
      attrs = [''tool_name'' \<mapsto> PyStr ''transfer_to_helper'', ''agent_name'' \<mapsto> PyStr ''Helper'']\<rparr>"

subsection \<open>The transcript\<close>

text \<open>
  \<open>add_printed\<close> is what a run of successful calls of the print function does to the
  world. \<open>claimed_transcript\<close> is the transcript in the specification's words, section by
  section: the header; the instructions text if there is one, else the line saying that
  there is none; the conversation items and their dump; the prompt configuration and
  its dump if there is one; the tools; the handoffs; the trailer. \<open>printed_transcript\<close>
  differs in the instructions section only: instructions count when they are a
  non-empty string, and a label line goes before them.
\<close>

definition add_printed :: "string list \<Rightarrow> world \<Rightarrow> world" where
  "add_printed lines w = w\<lparr>printed := printed w @ lines\<rparr>"

definition transcript_tail ::
  "string \<Rightarrow> string option \<Rightarrow> Tool list \<Rightarrow> string list \<Rightarrow> Handoff list \<Rightarrow> string list \<Rightarrow>
   string list"
where
  "transcript_tail items_dump prompt_dump tools tool_lines handoffs handoff_lines =
     [''Conversation items:'', items_dump]
     @ (case prompt_dump of Some d \<Rightarrow> [''Prompt configuration:'', d] | None \<Rightarrow> [])
     @ (if tools \<noteq> [] then ''Available tools:'' # tool_lines else [''Available tools: none''])
     @ (if handoffs \<noteq> [] then ''Available handoffs:'' # handoff_lines
        else [''Available handoffs: none''])
     @ [''Provide the next assistant message.'']"

definition claimed_transcript ::
  "string option \<Rightarrow> string \<Rightarrow> string option \<Rightarrow> Tool list \<Rightarrow> string list \<Rightarrow> Handoff list \<Rightarrow>
   string list \<Rightarrow> string list"
where
  "claimed_transcript system_instructions items_dump prompt_dump tools tool_lines handoffs
     handoff_lines =
     [''=== Manual model interaction ==='']
     @ (case system_instructions of
          Some instructions \<Rightarrow> [instructions]
        | None \<Rightarrow> [''System instructions: <none>''])
     @ transcript_tail items_dump prompt_dump tools tool_lines handoffs handoff_lines"

definition printed_transcript ::
  "string option \<Rightarrow> string \<Rightarrow> string option \<Rightarrow> Tool list \<Rightarrow> string list \<Rightarrow> Handoff list \<Rightarrow>
   string list \<Rightarrow> string list"
where
  "printed_transcript system_instructions items_dump prompt_dump tools tool_lines handoffs
     handoff_lines =
     [''=== Manual model interaction ==='']
     @ (case system_instructions of
          Some instructions \<Rightarrow>
            if instructions \<noteq> [] then [''System instructions:'', instructions]
            else [''System instructions: <none>'']
        | None \<Rightarrow> [''System instructions: <none>''])
     @ transcript_tail items_dump prompt_dump tools tool_lines handoffs handoff_lines"

text \<open>The reply step of the driver: the injected provider, or the default one.\<close>

definition reply_step :: "ManualResponseProvider option \<Rightarrow> string io" where
  "reply_step response_provider =
     (case response_provider of
        Some provider \<Rightarrow> await_provider provider
      | None \<Rightarrow> default_response_provider)"

text \<open>
  What the reply step gives in a world, without its effects: the outcome of the next
  invocation of the injected provider, or the next line of standard input, whose end
  makes \<open>input\<close> raise \<open>EOFError\<close>.
\<close>

definition provider_outcome :: "ManualResponseProvider option \<Rightarrow> world \<Rightarrow> error + string" where
  "provider_outcome response_provider w =
     (case response_provider of
        Some provider \<Rightarrow> provider (provider_calls w)
      | None \<Rightarrow> (case stdin w of [] \<Rightarrow> Inl EOFError | line # rest \<Rightarrow> Inr line))"

text \<open>An action that leaves the store as it is, however it ends.\<close>

definition keeps_heap :: "'a io \<Rightarrow> bool" where
  "keeps_heap m = (\<forall>w. heap (snd (m w)) = heap w)"

section \<open>Properties\<close>

subsection \<open>The formatter\<close>

lemma format_tools_loop_eq:
  "format_tools_loop formatted tools = Inr (formatted @ map tool_line tools)"
  by (induction tools arbitrary: formatted) simp_all

lemma format_tools_eq: "format_tools tools = Inr (map tool_line tools)"
  by (simp add: format_tools_def format_tools_loop_eq)

lemma tool_line_display: "tool_line tool = display_line tool"
  by (cases "attrs tool ''description''" rule: nonempty_field.cases;
      cases "attrs tool ''tool_description''" rule: nonempty_field.cases)
     (auto simp: tool_line_def display_line_def found_description_def tool_description_def
        tool_name_def shown_name_def getattr_default_def py_or_def Let_def
        split: option.splits)

lemma handoff_line_Inr_iff:
  "(\<exists>line. handoff_line handoff = Inr line) \<longleftrightarrow> has_handoff_attrs handoff"
  by (auto simp: handoff_line_def has_handoff_attrs_def getattr_def
      split: option.splits sum.splits)

lemma format_handoffs_loop_Inr_iff:
  "(\<exists>lines. format_handoffs_loop formatted handoffs = Inr lines)
   \<longleftrightarrow> (\<forall>handoff \<in> set handoffs. has_handoff_attrs handoff)"
proof (induction handoffs arbitrary: formatted)
  case Nil
  show ?case by simp
next
  case (Cons handoff handoffs)
  show ?case
  proof (cases "handoff_line handoff")
    case (Inl e)
    with handoff_line_Inr_iff [of handoff] show ?thesis by auto
  next
    case (Inr line)
    with handoff_line_Inr_iff [of handoff] Cons.IH [of "formatted @ [line]"]
    show ?thesis by auto
  qed
qed

text \<open>
  C4, as stated, at a function tool whose description is the empty string. The
  description field is there, so the specification's line is the name, a colon and the
  (empty) description; the code tests the description for truth and writes the name
  alone. The same test makes an empty \<open>description\<close> give way to \<open>tool_description\<close>.
\<close>

theorem undocumented_tool_line:
  "format_tools [undocumented_tool] = Inr [''  - test_tool'']
   \<and> map claimed_tool_line [undocumented_tool] = [''  - test_tool: '']
   \<and> format_tools [undocumented_tool] \<noteq> Inr (map claimed_tool_line [undocumented_tool])"
  by (simp add: format_tools_def tool_line_def tool_name_def tool_description_def
      getattr_default_def py_or_def undocumented_tool_def claimed_tool_line_def
      claimed_description_def shown_name_def)

text \<open>
  C4, amended: for every sequence of tools the formatter returns one line per tool, in
  input order, and none for the empty sequence. The name of a tool is its \<open>name\<close>
  attribute, or its class name when it has no such attribute. Its description is looked
  up under \<open>description\<close> and then \<open>tool_description\<close>, and the first of the two that
  holds a non-empty string wins. The line is exactly "  - name: description" when such
  a description is found and exactly "  - name" otherwise.
\<close>

theorem format_tools_lines: "format_tools tools = Inr (map display_line tools)"
  by (simp add: format_tools_eq tool_line_display)

lemma handoff_line_missing:
  "\<not> has_handoff_attrs handoff \<Longrightarrow>
   handoff_line handoff = Inl (AttributeError (class_name handoff) (missing_attr handoff))"
  by (auto simp: handoff_line_def has_handoff_attrs_def missing_attr_def getattr_def
      split: option.splits)

lemma format_handoffs_loop_missing:
  "find (\<lambda>handoff. \<not> has_handoff_attrs handoff) handoffs = Some bad \<Longrightarrow>
   format_handoffs_loop formatted handoffs
     = Inl (AttributeError (class_name bad) (missing_attr bad))"
proof (induction handoffs arbitrary: formatted)
  case Nil
  then show ?case by simp
next
  case (Cons handoff handoffs)
  show ?case
  proof (cases "has_handoff_attrs handoff")
    case True
    then obtain line where "handoff_line handoff = Inr line"
      using handoff_line_Inr_iff by blast
    with True Cons show ?thesis by simp
  next
    case False
    with Cons.prems have "bad = handoff" by simp
    with False show ?thesis by (simp add: handoff_line_missing)
  qed
qed

lemma handoff_line_without_description:
  assumes "attrs handoff ''tool_description'' \<in> {Some PyNone, Some (PyStr [])}"
    and "attrs handoff ''agent_name'' = Some agent"
    and "attrs handoff ''tool_name'' = Some invocation"
  shows "handoff_line handoff
         = Inr (''  - '' @ py_format agent @ '' via `'' @ py_format invocation @ ''`'')"
  using assms by (auto simp: handoff_line_def getattr_def)

lemma tool_line_without_description:
  assumes "attrs tool ''description'' \<in> {None, Some PyNone, Some (PyStr [])}"
    and "attrs tool ''tool_description'' \<in> {None, Some PyNone, Some (PyStr [])}"
  shows "tool_line tool = ''  - '' @ py_format (tool_name tool)"
  using assms by (auto simp: tool_line_def tool_description_def getattr_default_def py_or_def)

text \<open>
  C5, as stated, at a handoff that has no \<open>tool_description\<close> attribute: the handoff
  formatter reads the attribute directly and the read raises.
\<close>

theorem bare_handoff_raises:
  "format_handoffs [bare_handoff] = Inl (AttributeError ''Transfer'' ''tool_description'')"
  by (simp add: format_handoffs_def handoff_line_def getattr_def bare_handoff_def)

text \<open>
  C5, amended: formatting tools never raises, whichever attributes are missing, and
  gives each tool its line: a tool without a \<open>name\<close> attribute is shown under its class
  name, and a tool whose \<open>description\<close> and \<open>tool_description\<close> are each absent, \<open>None\<close>
  or empty has the line of its name alone. Formatting handoffs is not tolerant in this
  way. It returns its lines exactly when every handoff has the three attributes
  \<open>tool_description\<close>, \<open>agent_name\<close> and \<open>tool_name\<close>, as every instance of the class
  \<open>Handoff\<close> does; otherwise it raises \<open>AttributeError\<close>, for the first handoff that
  lacks one of them and for the first of the three, in that order, that it lacks. A
  handoff that has the three attributes, with a description that is \<open>None\<close> or empty,
  has its line without the description part.
\<close>

theorem formatting_tolerance:
  "format_tools tools = Inr (map tool_line tools)
   \<and> (attrs tool ''name'' = None \<longrightarrow> tool_name tool = PyStr (class_name tool))
   \<and> (attrs tool ''description'' \<in> {None, Some PyNone, Some (PyStr [])}
        \<and> attrs tool ''tool_description'' \<in> {None, Some PyNone, Some (PyStr [])}
        \<longrightarrow> tool_line tool = ''  - '' @ py_format (tool_name tool))
   \<and> ((\<exists>lines. format_handoffs handoffs = Inr lines)
        \<longleftrightarrow> (\<forall>handoff \<in> set handoffs. has_handoff_attrs handoff))
   \<and> (find (\<lambda>handoff. \<not> has_handoff_attrs handoff) handoffs = Some bad
        \<longrightarrow> format_handoffs handoffs
            = Inl (AttributeError (class_name bad) (missing_attr bad)))
   \<and> (attrs handoff ''tool_description'' \<in> {Some PyNone, Some (PyStr [])}
        \<and> attrs handoff ''agent_name'' = Some agent
        \<and> attrs handoff ''tool_name'' = Some invocation
        \<longrightarrow> handoff_line handoff
            = Inr (''  - '' @ py_format agent @ '' via `'' @ py_format invocation @ ''`''))"
proof (intro conjI impI)
  show "format_tools tools = Inr (map tool_line tools)"
    by (rule format_tools_eq)
  show "tool_name tool = PyStr (class_name tool)" if "attrs tool ''name'' = None"
    using that by (simp add: tool_name_def getattr_default_def)
  show "tool_line tool = ''  - '' @ py_format (tool_name tool)"
    if "attrs tool ''description'' \<in> {None, Some PyNone, Some (PyStr [])}
        \<and> attrs tool ''tool_description'' \<in> {None, Some PyNone, Some (PyStr [])}"
    using that by (simp add: tool_line_without_description)
  show "(\<exists>lines. format_handoffs handoffs = Inr lines)
        \<longleftrightarrow> (\<forall>handoff \<in> set handoffs. has_handoff_attrs handoff)"
    by (simp add: format_handoffs_def format_handoffs_loop_Inr_iff)
  show "format_handoffs handoffs = Inl (AttributeError (class_name bad) (missing_attr bad))"
    if "find (\<lambda>handoff. \<not> has_handoff_attrs handoff) handoffs = Some bad"
    using that by (simp add: format_handoffs_def format_handoffs_loop_missing)
  show "handoff_line handoff
        = Inr (''  - '' @ py_format agent @ '' via `'' @ py_format invocation @ ''`'')"
    if "attrs handoff ''tool_description'' \<in> {Some PyNone, Some (PyStr [])}
        \<and> attrs handoff ''agent_name'' = Some agent
        \<and> attrs handoff ''tool_name'' = Some invocation"
    using that by (simp add: handoff_line_without_description)
qed

theorem formatting_tolerance_witness:
  "format_tools [bare_tool, undocumented_tool] = Inr [''  - CustomTool'', ''  - test_tool'']
   \<and> has_handoff_attrs test_handoff
   \<and> format_handoffs [test_handoff] =
       Inr [''  - Helper via `transfer_to_helper`: Transfer to helper agent.'']
   \<and> find (\<lambda>handoff. \<not> has_handoff_attrs handoff) [test_handoff, bare_handoff]
       = Some bare_handoff
   \<and> format_handoffs [test_handoff, bare_handoff]
       = Inl (AttributeError ''Transfer'' ''tool_description'')
   \<and> handoff_line silent_handoff = Inr ''  - Helper via `transfer_to_helper`''"
proof -
  note bare = formatting_tolerance [where tools = "[bare_tool, undocumented_tool]"
      and tool = bare_tool and handoffs = "[test_handoff]"
      and handoff = silent_handoff and agent = "PyStr ''Helper''"
      and invocation = "PyStr ''transfer_to_helper''" and bad = bare_handoff]
  note undoc = formatting_tolerance [where tool = undocumented_tool
      and handoffs = "[test_handoff, bare_handoff]" and bad = bare_handoff]
  have "attrs bare_tool ''name'' = None"
    by (simp add: bare_tool_def)
  with bare have name: "tool_name bare_tool = PyStr ''CustomTool''"
    by (simp add: bare_tool_def)
  have "attrs bare_tool ''description'' \<in> {None, Some PyNone, Some (PyStr [])}
        \<and> attrs bare_tool ''tool_description'' \<in> {None, Some PyNone, Some (PyStr [])}"
    by (simp add: bare_tool_def)
  with bare name have line1: "tool_line bare_tool = ''  - CustomTool''"
    by simp
  have "attrs undocumented_tool ''description'' \<in> {None, Some PyNone, Some (PyStr [])}
        \<and> attrs undocumented_tool ''tool_description'' \<in> {None, Some PyNone, Some (PyStr [])}"
    by (simp add: undocumented_tool_def)
  with undoc have "tool_line undocumented_tool = ''  - '' @ py_format (tool_name undocumented_tool)"
    by blast
  then have line2: "tool_line undocumented_tool = ''  - test_tool''"
    by (simp add: tool_name_def getattr_default_def undocumented_tool_def)
  from bare line1 line2
  have tools: "format_tools [bare_tool, undocumented_tool]
               = Inr [''  - CustomTool'', ''  - test_tool'']"
    by simp
  have ok: "has_handoff_attrs test_handoff"
    by (simp add: has_handoff_attrs_def test_handoff_def)
  with bare have "\<exists>lines. format_handoffs [test_handoff] = Inr lines"
    by simp
  then have lines: "format_handoffs [test_handoff] =
       Inr [''  - Helper via `transfer_to_helper`: Transfer to helper agent.'']"
    by (auto simp: format_handoffs_def handoff_line_def getattr_def test_handoff_def)
  have lacks: "\<not> has_handoff_attrs bare_handoff"
    by (simp add: has_handoff_attrs_def bare_handoff_def)
  have found: "find (\<lambda>handoff. \<not> has_handoff_attrs handoff) [test_handoff, bare_handoff]
       = Some bare_handoff"
    by (simp add: ok lacks)
  with undoc have "format_handoffs [test_handoff, bare_handoff]
       = Inl (AttributeError (class_name bare_handoff) (missing_attr bare_handoff))"
    by blast
  then have raised: "format_handoffs [test_handoff, bare_handoff]
       = Inl (AttributeError ''Transfer'' ''tool_description'')"
    by (simp add: bare_handoff_def missing_attr_def)
  have "attrs silent_handoff ''tool_description'' \<in> {Some PyNone, Some (PyStr [])}
        \<and> attrs silent_handoff ''agent_name'' = Some (PyStr ''Helper'')
        \<and> attrs silent_handoff ''tool_name'' = Some (PyStr ''transfer_to_helper'')"
    by (simp add: silent_handoff_def)
  with bare have "handoff_line silent_handoff
      = Inr (''  - '' @ py_format (PyStr ''Helper'') @ '' via `''
             @ py_format (PyStr ''transfer_to_helper'') @ ''`'')"
    by blast
  then have silent: "handoff_line silent_handoff = Inr ''  - Helper via `transfer_to_helper`''"
    by simp
  from tools ok lines found raised silent show ?thesis
    by blast
qed

subsection \<open>The driver and the adapter, step by step\<close>

declare async_for_collect.simps [simp del]

lemma add_printed_twice: "add_printed bs (add_printed as w) = add_printed (as @ bs) w"
  by (simp add: add_printed_def)

lemma add_printed_fields:
  "printed (add_printed ls w) = printed w @ ls"
  "provider_calls (add_printed ls w) = provider_calls w"
  "heap (add_printed ls w) = heap w"
  "stdin (add_printed ls w) = stdin w"
  "console (add_printed ls w) = console w"
  by (simp_all add: add_printed_def)

lemma call_print_ok:
  "print_fn line = None \<Longrightarrow> call_print print_fn line w = (Inr (), add_printed [line] w)"
  by (simp add: call_print_def add_printed_def)

lemma print_lines_ok:
  "\<forall>line. print_fn line = None \<Longrightarrow> print_lines print_fn lines w = (Inr (), add_printed lines w)"
proof (induction lines arbitrary: w)
  case Nil
  show ?case by (simp add: return_io_def add_printed_def)
next
  case (Cons line lines)
  then show ?case
    by (simp add: then_io_def bind_io_def call_print_ok add_printed_twice)
qed

lemma normalize_io_eq:
  "input_to_new_input_list h inp (heap w) = (r, hp) \<Longrightarrow> normalize_io h inp w = (r, w\<lparr>heap := hp\<rparr>)"
  by (simp add: normalize_io_def)

lemma as_coroutine_fst:
  "fst (as_coroutine body w) =
     (case fst (body w) of Inl e \<Rightarrow> Inl (coroutine_exit e) | Inr x \<Rightarrow> Inr x)"
  by (simp add: as_coroutine_def split: prod.splits sum.splits)

lemma as_coroutine_snd: "snd (as_coroutine body w) = snd (body w)"
  by (simp add: as_coroutine_def split: prod.splits sum.splits)

lemma as_coroutine_eqI: "body w = body' w' \<Longrightarrow> as_coroutine body w = as_coroutine body' w'"
  by (simp add: as_coroutine_def)

lemma coroutine_exit_twice: "coroutine_exit (coroutine_exit e) = coroutine_exit e"
  by (cases e) simp_all

lemma agen_exit_coroutine_exit:
  "e \<noteq> StopIteration \<Longrightarrow> e \<noteq> StopAsyncIteration \<Longrightarrow> agen_exit (coroutine_exit e) = e"
  by (cases e) simp_all

lemma interaction_runs:
  assumes norm: "input_to_new_input_list h inp (heap w) = (Inr items, hp)"
    and pr: "\<forall>line. print_fn line = None"
    and tl: "format_tools tools = Inr tool_lines"
    and hl: "format_handoffs handoffs = Inr handoff_lines"
  shows "manual_prompt_interaction h system_instructions inp tools handoffs prompt print_fn
           response_provider w =
         as_coroutine (reply_step response_provider)
           (add_printed
              (printed_transcript system_instructions (pformat_items h hp items)
                 (map_option (pformat_prompt h) prompt) tools tool_lines handoffs handoff_lines)
              (w\<lparr>heap := hp\<rparr>))"
proof -
  have p: "\<And>line w. call_print print_fn line w = (Inr (), add_printed [line] w)"
    using pr by (simp add: call_print_ok)
  have ps: "\<And>lines w. print_lines print_fn lines w = (Inr (), add_printed lines w)"
    using pr by (simp add: print_lines_ok)
  show ?thesis
    unfolding manual_prompt_interaction_def
    by (rule as_coroutine_eqI)
       (simp add: normalize_io_eq [OF norm] then_io_def bind_io_def p ps
          print_pformat_items_def lift_result_def return_io_def tl hl add_printed_twice
          add_printed_fields printed_transcript_def transcript_tail_def reply_step_def
          split: option.splits)
qed

lemma reply_step_fst: "fst (reply_step response_provider w) = provider_outcome response_provider w"
  by (simp add: reply_step_def provider_outcome_def await_provider_def
      default_response_provider_def Let_def split: option.splits list.splits)

lemma reply_step_snd:
  "printed (snd (reply_step response_provider w)) = printed w"
  "provider_calls (snd (reply_step response_provider w)) = Suc (provider_calls w)"
  "heap (snd (reply_step response_provider w)) = heap w"
  by (simp_all add: reply_step_def await_provider_def default_response_provider_def Let_def
      split: option.splits list.splits)

lemma provider_outcome_add_printed:
  "provider_outcome response_provider (add_printed lines (w\<lparr>heap := hp\<rparr>)) =
   provider_outcome response_provider w"
  by (cases response_provider) (simp_all add: provider_outcome_def add_printed_def)

lemma interaction_outcome:
  assumes norm: "input_to_new_input_list h inp (heap w) = (Inr items, hp)"
    and pr: "print_fn = (\<lambda>line. None)"
    and hl: "format_handoffs handoffs = Inr handoff_lines"
  shows "fst (manual_prompt_interaction h system_instructions inp tools handoffs prompt print_fn
           response_provider w) =
         (case provider_outcome response_provider w of
            Inl e \<Rightarrow> Inl (coroutine_exit e)
          | Inr reply \<Rightarrow> Inr reply)"
    and "provider_calls (snd (manual_prompt_interaction h system_instructions inp tools handoffs
           prompt print_fn response_provider w)) = Suc (provider_calls w)"
    and "printed (snd (manual_prompt_interaction h system_instructions inp tools handoffs
           prompt print_fn response_provider w)) =
         printed w @ printed_transcript system_instructions (pformat_items h hp items)
           (map_option (pformat_prompt h) prompt) tools (map tool_line tools) handoffs handoff_lines"
proof -
  have pr': "\<forall>line. print_fn line = None"
    using pr by simp
  note run = interaction_runs [OF norm pr' format_tools_eq hl]
  show "fst (manual_prompt_interaction h system_instructions inp tools handoffs prompt print_fn
           response_provider w) =
         (case provider_outcome response_provider w of
            Inl e \<Rightarrow> Inl (coroutine_exit e)
          | Inr reply \<Rightarrow> Inr reply)"
    by (simp add: run as_coroutine_fst reply_step_fst provider_outcome_add_printed)
  show "provider_calls (snd (manual_prompt_interaction h system_instructions inp tools handoffs
           prompt print_fn response_provider w)) = Suc (provider_calls w)"
    by (simp add: run as_coroutine_snd reply_step_snd add_printed_fields)
  show "printed (snd (manual_prompt_interaction h system_instructions inp tools handoffs
           prompt print_fn response_provider w)) =
         printed w @ printed_transcript system_instructions (pformat_items h hp items)
           (map_option (pformat_prompt h) prompt) tools (map tool_line tools) handoffs handoff_lines"
    by (simp add: run as_coroutine_snd reply_step_snd add_printed_fields)
qed


lemma get_response_fst:
  "fst (get_response h self args w) =
     (case fst (manual_prompt_interaction h (arg_system_instructions args) (arg_input args)
                  (arg_tools args) (arg_handoffs args) (arg_prompt args) (self_print_fn self)
                  (self_response_provider self) w) of
        Inl e \<Rightarrow> Inl (coroutine_exit e)
      | Inr response_text \<Rightarrow>
          Inr \<lparr>model_output = [build_output_message response_text],
               model_usage = Usage_default, response_id = RESPONSE_ID\<rparr>)"
  by (simp add: get_response_def as_coroutine_fst bind_io_def return_io_def Let_def
      split: prod.splits sum.splits)

lemma get_response_snd:
  "snd (get_response h self args w) =
     snd (manual_prompt_interaction h (arg_system_instructions args) (arg_input args)
            (arg_tools args) (arg_handoffs args) (arg_prompt args) (self_print_fn self)
            (self_response_provider self) w)"
  by (simp add: get_response_def as_coroutine_snd bind_io_def return_io_def Let_def
      split: prod.splits sum.splits)

lemma stream_response_body_fst:
  "fst (stream_response_body h self args w) =
     (case fst (manual_prompt_interaction h (arg_system_instructions args) (arg_input args)
                  (arg_tools args) (arg_handoffs args) (arg_prompt args) (self_print_fn self)
                  (self_response_provider self) w) of
        Inl e \<Rightarrow> Inl e
      | Inr response_text \<Rightarrow>
          Inr (build_completed_event (build_output_message response_text) Usage_default))"
  by (simp add: stream_response_body_def bind_io_def return_io_def Let_def
      split: prod.splits sum.splits)

lemma stream_response_body_snd:
  "snd (stream_response_body h self args w) =
     snd (manual_prompt_interaction h (arg_system_instructions args) (arg_input args)
            (arg_tools args) (arg_handoffs args) (arg_prompt args) (self_print_fn self)
            (self_response_provider self) w)"
  by (simp add: stream_response_body_def bind_io_def return_io_def Let_def
      split: prod.splits sum.splits)

text \<open>The stream of a new generator, in terms of its body.\<close>

lemma list_of_stream_eq:
  "list_of_stream h self args w =
     (case stream_response_body h self args w of
        (Inl e, w') \<Rightarrow> (Inl (agen_exit e), w')
      | (Inr event, w') \<Rightarrow> (Inr [event], w'))"
proof (cases "stream_response_body h self args w")
  case (Pair r w')
  show ?thesis
  proof (cases r)
    case (Inl e)
    with Pair show ?thesis
      by (simp add: list_of_stream_def stream_response_def bind_io_def return_io_def
          async_for_collect.simps [of h _ "[]" w] anext_def)
  next
    case (Inr event)
    with Pair show ?thesis
      by (simp add: list_of_stream_def stream_response_def bind_io_def return_io_def
          async_for_collect.simps [of h _ "[]" w]
          async_for_collect.simps [of h _ "[event]" w'] anext_def)
  qed
qed


lemma test_normalized:
  "input_to_new_input_list test_host (InputStr ''Hello'') (heap empty_world) =
      (Inr 1, [ItemObj [(''content'', ''Hello''), (''role'', ''user'')], ListObj [0]])"
  by (simp add: test_host_def empty_world_def spec_input_to_new_input_list_def)

lemma test_handoff_lines:
  "format_handoffs [test_handoff] =
      Inr [''  - Helper via `transfer_to_helper`: Transfer to helper agent.'']"
  by (simp add: format_handoffs_def handoff_line_def getattr_def test_handoff_def)

lemma test_tool_lines: "format_tools [test_tool] = Inr [''  - test_tool: A simple helper.'']"
  by (simp add: format_tools_def tool_line_def tool_name_def tool_description_def
      getattr_default_def py_or_def test_tool_def)


lemma ping_normalized:
  "input_to_new_input_list test_host (arg_input stream_args) (heap ping_world) =
     (Inr 3, [ItemObj [(''role'', ''user''), (''content'', ''Ping'')], ListObj [0],
              ItemObj [(''role'', ''user''), (''content'', ''Ping'')], ListObj [2]])"
  by (simp add: test_host_def stream_args_def ping_world_def empty_world_def
      spec_input_to_new_input_list_def heap_lookup_def)

lemma test_model_fields:
  "self_print_fn (test_model responses) = (\<lambda>line. None)"
  "self_response_provider (test_model responses) = Some (pop_provider responses)"
  by (simp_all add: test_model_def append_print_fn_def)

lemma no_handoff_lines: "format_handoffs [] = Inr []"
  by (simp add: format_handoffs_def)

lemma anext_created:
  "gen_state g = Created \<Longrightarrow>
   anext h g w =
     (case stream_response_body h (gen_self g) (gen_args g) w of
        (Inl e, w') \<Rightarrow> (Inl (agen_exit e), g\<lparr>gen_state := Closed\<rparr>, w')
      | (Inr event, w') \<Rightarrow> (Inr (Some event), g\<lparr>gen_state := Suspended\<rparr>, w'))"
  by (simp add: anext_def)

lemma get_response_reply:
  assumes "input_to_new_input_list h (arg_input args) (heap w) = (Inr items, hp)"
    and "self_print_fn self = (\<lambda>line. None)"
    and "format_handoffs (arg_handoffs args) = Inr handoff_lines"
  shows "fst (get_response h self args w) =
     (case provider_outcome (self_response_provider self) w of
        Inl e \<Rightarrow> Inl (coroutine_exit e)
      | Inr T \<Rightarrow> Inr \<lparr>model_output = [build_output_message T], model_usage = Usage_default,
                      response_id = RESPONSE_ID\<rparr>)"
  by (simp add: get_response_fst interaction_outcome(1) [OF assms] coroutine_exit_twice
      split: sum.splits)

lemma stream_body_reply:
  assumes "input_to_new_input_list h (arg_input args) (heap w) = (Inr items, hp)"
    and "self_print_fn self = (\<lambda>line. None)"
    and "format_handoffs (arg_handoffs args) = Inr handoff_lines"
  shows "fst (stream_response_body h self args w) =
     (case provider_outcome (self_response_provider self) w of
        Inl e \<Rightarrow> Inl (coroutine_exit e)
      | Inr T \<Rightarrow> Inr (build_completed_event (build_output_message T) Usage_default))"
  by (simp add: stream_response_body_fst interaction_outcome(1) [OF assms] split: sum.splits)

lemma list_of_stream_fst:
  "fst (list_of_stream h self args w) =
     (case fst (stream_response_body h self args w) of
        Inl e \<Rightarrow> Inl (agen_exit e)
      | Inr event \<Rightarrow> Inr [event])"
  by (simp add: list_of_stream_eq split: prod.splits sum.splits)

lemma list_of_stream_snd:
  "snd (list_of_stream h self args w) = snd (stream_response_body h self args w)"
  by (simp add: list_of_stream_eq split: prod.splits sum.splits)

lemma get_response_shape:
  "fst (get_response h self args w) = Inr r \<Longrightarrow>
   \<exists>T. r = \<lparr>model_output = [build_output_message T], model_usage = Usage_default,
             response_id = RESPONSE_ID\<rparr>"
  by (auto simp: get_response_fst split: sum.splits)

lemma anext_created_fst:
  "gen_state g = Created \<Longrightarrow>
   fst (anext h g w) =
     (case fst (stream_response_body h (gen_self g) (gen_args g) w) of
        Inl e \<Rightarrow> Inl (agen_exit e)
      | Inr event \<Rightarrow> Inr (Some event))"
  by (simp add: anext_created split: prod.splits sum.splits)

lemma anext_shape:
  "fst (anext h g w) = Inr (Some event) \<Longrightarrow>
   \<exists>T. event = build_completed_event (build_output_message T) Usage_default"
proof -
  assume a: "fst (anext h g w) = Inr (Some event)"
  then have "gen_state g = Created"
    by (cases "gen_state g") (simp_all add: anext_def)
  with a have "fst (stream_response_body h (gen_self g) (gen_args g) w) = Inr event"
    by (simp add: anext_created_fst split: sum.splits)
  then show ?thesis
    by (auto simp: stream_response_body_fst split: sum.splits)
qed

lemma test_get_response:
  "fst (get_response test_host (test_model [''Manual reply'']) get_args empty_world) =
     Inr \<lparr>model_output = [build_output_message ''Manual reply''], model_usage = Usage_default,
          response_id = RESPONSE_ID\<rparr>"
proof -
  have "input_to_new_input_list test_host (arg_input get_args) (heap empty_world) =
      (Inr 1, [ItemObj [(''content'', ''Hello''), (''role'', ''user'')], ListObj [0]])"
    using test_normalized by (simp add: get_args_def)
  moreover have "format_handoffs (arg_handoffs get_args) =
      Inr [''  - Helper via `transfer_to_helper`: Transfer to helper agent.'']"
    using test_handoff_lines by (simp add: get_args_def)
  ultimately show ?thesis
    by (simp add: get_response_reply [OF _ test_model_fields(1)] provider_outcome_def
        test_model_fields(2) pop_provider_def empty_world_def)
qed

lemma ping_outcome:
  "provider_outcome (Some (pop_provider [''Streamed manual response''])) ping_world =
     Inr ''Streamed manual response''"
  by (simp add: provider_outcome_def pop_provider_def ping_world_def empty_world_def)

lemma test_first_event:
  "fst (anext test_host
          \<lparr>gen_self = test_model [''Streamed manual response''], gen_args = stream_args,
           gen_state = Created\<rparr> ping_world) =
     Inr (Some (build_completed_event (build_output_message ''Streamed manual response'')
                  Usage_default))"
proof -
  have hl: "format_handoffs (arg_handoffs stream_args) = Inr []"
    by (simp add: stream_args_def no_handoff_lines)
  have "fst (stream_response_body test_host (test_model [''Streamed manual response''])
          stream_args ping_world) =
     Inr (build_completed_event (build_output_message ''Streamed manual response'')
            Usage_default)"
    by (simp add: stream_body_reply [OF ping_normalized test_model_fields(1) hl]
        test_model_fields(2) ping_outcome)
  then show ?thesis
    by (simp add: anext_created_fst)
qed

lemma interaction_not_normalized:
  assumes "input_to_new_input_list h inp (heap w) = (Inl e, hp)"
  shows "manual_prompt_interaction h system_instructions inp tools handoffs prompt print_fn
           response_provider w = (Inl (coroutine_exit e), w\<lparr>heap := hp\<rparr>)"
  by (simp add: manual_prompt_interaction_def as_coroutine_def bind_io_def
      normalize_io_eq [OF assms])

subsection \<open>The store\<close>

lemma keeps_heap_return: "keeps_heap (return_io x)"
  by (simp add: keeps_heap_def return_io_def)

lemma keeps_heap_lift: "keeps_heap (lift_result r)"
  by (simp add: keeps_heap_def lift_result_def)

lemma keeps_heap_call_print: "keeps_heap (call_print print_fn line)"
  by (simp add: keeps_heap_def call_print_def Let_def split: option.splits)

lemma keeps_heap_bind:
  assumes "keeps_heap m" and "\<And>x. keeps_heap (f x)"
  shows "keeps_heap (bind_io m f)"
  unfolding keeps_heap_def
proof
  fix w
  show "heap (snd (bind_io m f w)) = heap w"
  proof (cases "m w")
    case (Pair r w')
    with assms(1) have w': "heap w' = heap w"
      by (auto simp: keeps_heap_def dest: spec [of _ w])
    show ?thesis
    proof (cases r)
      case (Inl e)
      with Pair w' show ?thesis by (simp add: bind_io_def)
    next
      case (Inr x)
      with Pair w' assms(2) [of x] show ?thesis
        by (simp add: bind_io_def keeps_heap_def)
    qed
  qed
qed

lemma keeps_heap_then: "keeps_heap m \<Longrightarrow> keeps_heap k \<Longrightarrow> keeps_heap (then_io m k)"
  by (simp add: then_io_def keeps_heap_bind)

lemma keeps_heap_print_lines: "keeps_heap (print_lines print_fn lines)"
  by (induction lines) (simp_all add: keeps_heap_return keeps_heap_then keeps_heap_call_print)

lemma keeps_heap_pformat: "keeps_heap (print_pformat_items h print_fn normalized_input)"
  using keeps_heap_call_print
  by (simp add: keeps_heap_def print_pformat_items_def)

lemma keeps_heap_reply:
  "keeps_heap (case response_provider of
                 Some provider \<Rightarrow> await_provider provider
               | None \<Rightarrow> default_response_provider)"
  by (simp add: keeps_heap_def await_provider_def default_response_provider_def Let_def
      split: option.splits list.splits)

lemma heap_after_bind:
  assumes "\<And>x. keeps_heap (f x)"
  shows "heap (snd (bind_io m f w)) = heap (snd (m w))"
proof (cases "m w")
  case (Pair r w')
  then show ?thesis
    using assms by (cases r) (simp_all add: bind_io_def keeps_heap_def)
qed

lemma interaction_heap:
  "heap (snd (manual_prompt_interaction h system_instructions inp tools handoffs prompt print_fn
      response_provider w)) = snd (input_to_new_input_list h inp (heap w))"
proof -
  have "heap (snd (manual_prompt_interaction h system_instructions inp tools handoffs prompt
      print_fn response_provider w)) = heap (snd (normalize_io h inp w))"
    unfolding manual_prompt_interaction_def as_coroutine_snd
    by (rule heap_after_bind)
       (intro keeps_heap_then keeps_heap_bind keeps_heap_call_print keeps_heap_pformat
          keeps_heap_reply keeps_heap_print_lines keeps_heap_lift keeps_heap_return;
        simp add: keeps_heap_then keeps_heap_bind keeps_heap_call_print keeps_heap_return
          keeps_heap_lift keeps_heap_print_lines split: option.splits)
  then show ?thesis
    by (simp add: normalize_io_def split: prod.splits)
qed

lemma heap_extends_lookup:
  assumes "heap_extends hp hp'" and "heap_lookup hp a = Some obj"
  shows "heap_lookup hp' a = Some obj"
proof -
  from assms(2) have a: "a < length hp" and obj: "hp ! a = obj"
    by (auto simp: heap_lookup_def split: if_splits)
  from assms(1) have t: "take (length hp) hp' = hp"
    by (simp add: heap_extends_def)
  then have "length hp \<le> length hp'"
    by (metis length_take min.cobounded1)
  moreover from t a have "hp' ! a = hp ! a"
    by (metis nth_take)
  ultimately show ?thesis
    using a obj by (simp add: heap_lookup_def)
qed

lemma spec_normalization_extends:
  "heap_extends hp (snd (spec_input_to_new_input_list inp hp))"
  by (simp add: heap_extends_def spec_input_to_new_input_list_def
      split: conv_input.splits option.splits heap_obj.splits)

subsection \<open>The transcript\<close>

text \<open>
  C3, as stated, at the call of the first test, whose instructions are "Be concise.",
  and at the same call with the empty string for instructions. The specification's
  instructions section is the text itself; the code prints the label line
  "System instructions:" before the text, and for the empty string, which is present
  (it is not \<open>None\<close>) but false, it prints the line that says there are none.
\<close>

theorem instructions_section_differs:
  "take 3 (printed (snd (manual_prompt_interaction test_host (Some ''Be concise.'')
      (InputStr ''Hello'') [test_tool] [test_handoff] None append_print_fn
      (Some (pop_provider [''Manual reply''])) empty_world))) =
     [''=== Manual model interaction ==='', ''System instructions:'', ''Be concise.'']
   \<and> take 3 (claimed_transcript (Some ''Be concise.'') ''content: Hello; role: user; '' None
      [test_tool] [''  - test_tool: A simple helper.''] [test_handoff]
      [''  - Helper via `transfer_to_helper`: Transfer to helper agent.'']) =
     [''=== Manual model interaction ==='', ''Be concise.'', ''Conversation items:'']
   \<and> take 2 (printed (snd (manual_prompt_interaction test_host (Some [])
      (InputStr ''Hello'') [test_tool] [test_handoff] None append_print_fn
      (Some (pop_provider [''Manual reply''])) empty_world))) =
     [''=== Manual model interaction ==='', ''System instructions: <none>'']
   \<and> take 2 (claimed_transcript (Some []) ''content: Hello; role: user; '' None
      [test_tool] [''  - test_tool: A simple helper.''] [test_handoff]
      [''  - Helper via `transfer_to_helper`: Transfer to helper agent.'']) =
     [''=== Manual model interaction ==='', []]
   \<and> printed (snd (manual_prompt_interaction test_host (Some ''Be concise.'')
      (InputStr ''Hello'') [test_tool] [test_handoff] None append_print_fn
      (Some (pop_provider [''Manual reply''])) empty_world)) \<noteq>
     claimed_transcript (Some ''Be concise.'') ''content: Hello; role: user; '' None
      [test_tool] [''  - test_tool: A simple helper.''] [test_handoff]
      [''  - Helper via `transfer_to_helper`: Transfer to helper agent.'']"
proof -
  have run: "\<And>instructions.
    printed (snd (manual_prompt_interaction test_host instructions (InputStr ''Hello'')
      [test_tool] [test_handoff] None append_print_fn (Some (pop_provider [''Manual reply'']))
      empty_world)) =
    printed empty_world @ printed_transcript instructions
      (pformat_items test_host
         [ItemObj [(''content'', ''Hello''), (''role'', ''user'')], ListObj [0]] 1)
      (map_option (pformat_prompt test_host) None) [test_tool]
      (map tool_line [test_tool]) [test_handoff]
      [''  - Helper via `transfer_to_helper`: Transfer to helper agent.'']"
    by (rule interaction_outcome(3) [OF test_normalized append_print_fn_def test_handoff_lines])
  have start: "printed empty_world = []"
    by (simp add: empty_world_def)
  show ?thesis
    by (simp add: run start printed_transcript_def claimed_transcript_def transcript_tail_def)
qed

text \<open>
  C3, amended: whenever normalization returns, the print function returns and the
  handoffs have their attributes, the lines passed to the print function by one call of
  the driver are, in this order: the header "=== Manual model interaction ==="; the
  instructions section, which is the label line "System instructions:" followed by the
  instructions when these are a non-empty string, and the single line
  "System instructions: <none>" when they are \<open>None\<close> or empty; "Conversation items:"
  and the dump of the normalized input; "Prompt configuration:" and its dump, only if a
  prompt configuration is present; "Available tools:" and the formatter's lines when
  there are tools, else "Available tools: none"; the handoffs section in the same
  pattern; the trailer "Provide the next assistant message." last. This holds whatever
  the reply provider does afterwards.
\<close>

theorem transcript_order:
  assumes "input_to_new_input_list h inp (heap w) = (Inr items, hp)"
    and "print_fn = (\<lambda>line. None)"
    and "format_tools tools = Inr tool_lines"
    and "format_handoffs handoffs = Inr handoff_lines"
  shows "printed (snd (manual_prompt_interaction h system_instructions inp tools handoffs prompt
           print_fn response_provider w)) =
         printed w @ printed_transcript system_instructions (pformat_items h hp items)
           (map_option (pformat_prompt h) prompt) tools tool_lines handoffs handoff_lines"
proof -
  have "tool_lines = map tool_line tools"
    using assms(3) by (simp add: format_tools_eq)
  then show ?thesis
    by (simp add: interaction_outcome(3) [OF assms(1,2,4)])
qed


theorem transcript_order_witness:
  "printed (snd (manual_prompt_interaction test_host (Some ''Be concise.'') (InputStr ''Hello'')
      [test_tool] [test_handoff] None append_print_fn (Some (pop_provider [''Manual reply'']))
      empty_world)) =
   [''=== Manual model interaction ==='',
    ''System instructions:'',
    ''Be concise.'',
    ''Conversation items:'',
    ''content: Hello; role: user; '',
    ''Available tools:'',
    ''  - test_tool: A simple helper.'',
    ''Available handoffs:'',
    ''  - Helper via `transfer_to_helper`: Transfer to helper agent.'',
    ''Provide the next assistant message.'']"
proof -
  have "printed (snd (manual_prompt_interaction test_host (Some ''Be concise.'') (InputStr ''Hello'')
      [test_tool] [test_handoff] None append_print_fn (Some (pop_provider [''Manual reply'']))
      empty_world)) =
    printed empty_world @ printed_transcript (Some ''Be concise.'')
      (pformat_items test_host
         [ItemObj [(''content'', ''Hello''), (''role'', ''user'')], ListObj [0]] 1)
      (map_option (pformat_prompt test_host) None) [test_tool]
      [''  - test_tool: A simple helper.''] [test_handoff]
      [''  - Helper via `transfer_to_helper`: Transfer to helper agent.'']"
    by (rule transcript_order [OF test_normalized append_print_fn_def test_tool_lines
          test_handoff_lines])
  then show ?thesis
    by (simp add: printed_transcript_def transcript_tail_def empty_world_def test_host_def
        show_items_def heap_lookup_def)
qed


subsection \<open>The reply in the response\<close>

text \<open>
  C1: whenever the injected provider is reached and returns the text T, that is when
  normalization returns, the print function returns, the handoffs have their
  attributes and the provider's invocation gives T, \<open>get_response\<close> returns a result
  whose output is exactly one message, whose content is exactly one text segment, whose
  text is T unchanged, and whose usage counters (input, output, total, cached and
  reasoning tokens) are all zero.
\<close>

theorem get_response_wraps_reply:
  assumes "input_to_new_input_list h (arg_input args) (heap w) = (Inr items, hp)"
    and "self_print_fn self = (\<lambda>line. None)"
    and "format_handoffs (arg_handoffs args) = Inr handoff_lines"
    and "self_response_provider self = Some provider"
    and "provider (provider_calls w) = Inr T"
  shows "\<exists>r. fst (get_response h self args w) = Inr r
           \<and> (\<exists>message. model_output r = [message]
                \<and> (\<exists>segment. content message = [segment] \<and> segment_text segment = T))
           \<and> input_tokens (model_usage r) = 0 \<and> output_tokens (model_usage r) = 0
           \<and> total_tokens (model_usage r) = 0
           \<and> cached_tokens (input_tokens_details (model_usage r)) = 0
           \<and> reasoning_tokens (output_tokens_details (model_usage r)) = 0"
proof -
  have "fst (manual_prompt_interaction h (arg_system_instructions args) (arg_input args)
          (arg_tools args) (arg_handoffs args) (arg_prompt args) (self_print_fn self)
          (self_response_provider self) w) = Inr T"
    using interaction_outcome(1) [OF assms(1-3)] assms(4,5) by (simp add: provider_outcome_def)
  then have "fst (get_response h self args w) =
      Inr \<lparr>model_output = [build_output_message T], model_usage = Usage_default,
           response_id = RESPONSE_ID\<rparr>"
    by (simp add: get_response_fst)
  then show ?thesis
    by (simp add: build_output_message_def Usage_default_def)
qed

theorem get_response_wraps_reply_witness:
  "pop_provider [''Manual reply''] (provider_calls empty_world) = Inr ''Manual reply''
   \<and> (\<exists>r. fst (get_response test_host (test_model [''Manual reply'']) get_args empty_world) = Inr r
           \<and> (\<exists>message. model_output r = [message]
                \<and> (\<exists>segment. content message = [segment]
                     \<and> segment_text segment = ''Manual reply''))
           \<and> input_tokens (model_usage r) = 0 \<and> output_tokens (model_usage r) = 0
           \<and> total_tokens (model_usage r) = 0
           \<and> cached_tokens (input_tokens_details (model_usage r)) = 0
           \<and> reasoning_tokens (output_tokens_details (model_usage r)) = 0)"
proof -
  have norm: "input_to_new_input_list test_host (arg_input get_args) (heap empty_world) =
      (Inr 1, [ItemObj [(''content'', ''Hello''), (''role'', ''user'')], ListObj [0]])"
    by (simp add: test_host_def get_args_def empty_world_def spec_input_to_new_input_list_def)
  have pr: "self_print_fn (test_model [''Manual reply'']) = (\<lambda>line. None)"
    by (simp add: test_model_def append_print_fn_def)
  have hl: "format_handoffs (arg_handoffs get_args) =
      Inr [''  - Helper via `transfer_to_helper`: Transfer to helper agent.'']"
    by (simp add: get_args_def format_handoffs_def handoff_line_def getattr_def
        test_handoff_def)
  have rp: "self_response_provider (test_model [''Manual reply'']) =
      Some (pop_provider [''Manual reply''])"
    by (simp add: test_model_def)
  have reply: "pop_provider [''Manual reply''] (provider_calls empty_world) = Inr ''Manual reply''"
    by (simp add: pop_provider_def empty_world_def)
  from reply get_response_wraps_reply [OF norm pr hl rp reply] show ?thesis
    by (rule conjI)
qed

text \<open>
  C2: whenever the provider is reached and returns the text T, the stream of
  \<open>stream_response\<close> yields exactly one event and then stops: the first step of the
  iteration hands out an event, the second one ends the iteration, and the consumer
  collects the one event. The event is of the completed kind, its response has exactly
  one output message, with exactly one content segment, whose text is T. No event of
  another kind is produced.
\<close>

theorem stream_yields_one_completed_event:
  assumes "input_to_new_input_list h (arg_input args) (heap w) = (Inr items, hp)"
    and "self_print_fn self = (\<lambda>line. None)"
    and "format_handoffs (arg_handoffs args) = Inr handoff_lines"
    and "self_response_provider self = Some provider"
    and "provider (provider_calls w) = Inr T"
  shows "\<exists>g event g' w'.
           stream_response self args w = (Inr g, w)
           \<and> anext h g w = (Inr (Some event), g', w')
           \<and> fst (anext h g' w') = Inr None
           \<and> list_of_stream h self args w = (Inr [event], w')
           \<and> event_type event = ''response.completed''
           \<and> (\<exists>message. resp_output (response event) = [message]
                \<and> (\<exists>segment. content message = [segment] \<and> segment_text segment = T))"
proof -
  let ?g = "\<lparr>gen_self = self, gen_args = args, gen_state = Created\<rparr>"
  let ?event = "build_completed_event (build_output_message T) Usage_default"
  obtain r w' where body: "stream_response_body h self args w = (r, w')"
    by (cases "stream_response_body h self args w")
  have "fst (manual_prompt_interaction h (arg_system_instructions args) (arg_input args)
          (arg_tools args) (arg_handoffs args) (arg_prompt args) (self_print_fn self)
          (self_response_provider self) w) = Inr T"
    using interaction_outcome(1) [OF assms(1-3)] assms(4,5) by (simp add: provider_outcome_def)
  then have "fst (stream_response_body h self args w) = Inr ?event"
    by (simp add: stream_response_body_fst)
  with body have body': "stream_response_body h self args w = (Inr ?event, w')"
    by simp
  have 1: "stream_response self args w = (Inr ?g, w)"
    by (simp add: stream_response_def return_io_def)
  have 2: "anext h ?g w = (Inr (Some ?event), ?g\<lparr>gen_state := Suspended\<rparr>, w')"
    by (simp add: anext_created body')
  have 3: "fst (anext h (?g\<lparr>gen_state := Suspended\<rparr>) w') = Inr None"
    by (simp add: anext_def)
  have 4: "list_of_stream h self args w = (Inr [?event], w')"
    by (simp add: list_of_stream_eq body')
  have 5: "event_type ?event = ''response.completed''"
    by (simp add: build_completed_event_def)
  have 6: "\<exists>message. resp_output (response ?event) = [message]
             \<and> (\<exists>segment. content message = [segment] \<and> segment_text segment = T)"
    by (simp add: build_completed_event_def build_output_message_def)
  from 1 2 3 4 5 6 show ?thesis
    by blast
qed

theorem stream_yields_one_completed_event_witness:
  "pop_provider [''Streamed manual response''] (provider_calls ping_world)
     = Inr ''Streamed manual response''
   \<and> (\<exists>g event g' w'.
           stream_response (test_model [''Streamed manual response'']) stream_args ping_world
             = (Inr g, ping_world)
           \<and> anext test_host g ping_world = (Inr (Some event), g', w')
           \<and> fst (anext test_host g' w') = Inr None
           \<and> list_of_stream test_host (test_model [''Streamed manual response'']) stream_args
                ping_world = (Inr [event], w')
           \<and> event_type event = ''response.completed''
           \<and> (\<exists>message. resp_output (response event) = [message]
                \<and> (\<exists>segment. content message = [segment]
                     \<and> segment_text segment = ''Streamed manual response'')))"
proof -
  have reply: "pop_provider [''Streamed manual response''] (provider_calls ping_world)
     = Inr ''Streamed manual response''"
    by (simp add: pop_provider_def ping_world_def empty_world_def)
  have hl: "format_handoffs (arg_handoffs stream_args) = Inr []"
    by (simp add: stream_args_def no_handoff_lines)
  from reply
    stream_yields_one_completed_event [OF ping_normalized test_model_fields(1) hl
      test_model_fields(2) reply]
  show ?thesis
    by (rule conjI)
qed

subsection \<open>The fixed constants\<close>

text \<open>
  C6, as stated, at the event built for the reply "Manual reply": the type of a stream
  event is the string "response.completed", not "completed". The claim also has every
  response of \<open>get_response\<close> carry a model name, a creation time, a tool choice, a tools
  list and a parallel-tool-calls flag; the \<open>ModelResponse\<close> that \<open>get_response\<close> returns
  has the three fields \<open>output\<close>, \<open>usage\<close> and \<open>response_id\<close> and none of those, which
  belong to the \<open>Response\<close> inside the stream event only.
\<close>

theorem event_type_is_not_completed:
  "event_type (build_completed_event (build_output_message ''Manual reply'') Usage_default)
     = ''response.completed''
   \<and> event_type (build_completed_event (build_output_message ''Manual reply'') Usage_default)
     \<noteq> ''completed''"
  by (simp add: build_completed_event_def)

text \<open>
  C6, amended: every result returned by \<open>get_response\<close> has the response id
  "manual-response" and its message the id "manual-message"; every event handed out by
  a step of a stream has the type "response.completed" and the sequence number 0, and
  its response carries the id "manual-response", the model "manual", the creation time
  0, the tool choice "none", an empty tools list, parallel tool calls off, and the
  message id "manual-message". The same constants on every call.
\<close>

theorem fixed_constants:
  "(fst (get_response h self args w) = Inr r \<longrightarrow>
      response_id r = ''manual-response''
      \<and> (\<forall>message \<in> set (model_output r). message_id message = ''manual-message''))
   \<and> (fst (anext h g w') = Inr (Some event) \<longrightarrow>
      event_type event = ''response.completed''
      \<and> sequence_number event = 0
      \<and> resp_id (response event) = ''manual-response''
      \<and> resp_model (response event) = ''manual''
      \<and> created_at (response event) = 0
      \<and> tool_choice (response event) = ''none''
      \<and> resp_tools (response event) = []
      \<and> \<not> parallel_tool_calls (response event)
      \<and> (\<forall>message \<in> set (resp_output (response event)).
            message_id message = ''manual-message''))"
proof (intro conjI impI)
  assume "fst (get_response h self args w) = Inr r"
  then obtain T where r: "r = \<lparr>model_output = [build_output_message T],
      model_usage = Usage_default, response_id = RESPONSE_ID\<rparr>"
    using get_response_shape by blast
  show "response_id r = ''manual-response''"
    by (simp add: r RESPONSE_ID_def)
  show "\<forall>message \<in> set (model_output r). message_id message = ''manual-message''"
    by (simp add: r build_output_message_def MESSAGE_ID_def)
next
  assume "fst (anext h g w') = Inr (Some event)"
  then obtain T where e: "event = build_completed_event (build_output_message T) Usage_default"
    using anext_shape by blast
  show "event_type event = ''response.completed''"
    and "sequence_number event = 0"
    and "resp_id (response event) = ''manual-response''"
    and "resp_model (response event) = ''manual''"
    and "created_at (response event) = 0"
    and "tool_choice (response event) = ''none''"
    and "resp_tools (response event) = []"
    and "\<not> parallel_tool_calls (response event)"
    and "\<forall>message \<in> set (resp_output (response event)).
            message_id message = ''manual-message''"
    by (simp_all add: e build_completed_event_def build_output_message_def RESPONSE_ID_def
        MESSAGE_ID_def)
qed

theorem fixed_constants_witness:
  "fst (get_response test_host (test_model [''Manual reply'']) get_args empty_world) =
     Inr \<lparr>model_output = [build_output_message ''Manual reply''], model_usage = Usage_default,
          response_id = RESPONSE_ID\<rparr>
   \<and> response_id \<lparr>model_output = [build_output_message ''Manual reply''],
       model_usage = Usage_default, response_id = RESPONSE_ID\<rparr> = ''manual-response''
   \<and> fst (anext test_host
          \<lparr>gen_self = test_model [''Streamed manual response''], gen_args = stream_args,
           gen_state = Created\<rparr> ping_world) =
     Inr (Some (build_completed_event (build_output_message ''Streamed manual response'')
                  Usage_default))
   \<and> event_type (build_completed_event (build_output_message ''Streamed manual response'')
        Usage_default) = ''response.completed''
   \<and> resp_model (response (build_completed_event
        (build_output_message ''Streamed manual response'') Usage_default)) = ''manual''"
  using fixed_constants [where h = test_host and self = "test_model [''Manual reply'']"
      and args = get_args and w = empty_world
      and r = "\<lparr>model_output = [build_output_message ''Manual reply''],
        model_usage = Usage_default, response_id = RESPONSE_ID\<rparr>"
      and g = "\<lparr>gen_self = test_model [''Streamed manual response''], gen_args = stream_args,
        gen_state = Created\<rparr>"
      and w' = ping_world
      and event = "build_completed_event (build_output_message ''Streamed manual response'')
        Usage_default"]
    test_get_response test_first_event
  by blast

subsection \<open>Failures\<close>

text \<open>
  C7, as stated, at the call of the first test with a provider that raises
  \<open>StopAsyncIteration\<close>, and with one that raises \<open>StopIteration\<close>: the stream of
  \<open>stream_response\<close> does not fail with the provider's \<open>StopAsyncIteration\<close> but with
  the \<open>RuntimeError\<close> that the runtime puts in its place when it leaves the body of the
  asynchronous generator, and \<open>get_response\<close> does not fail with the provider's
  \<open>StopIteration\<close> but with the \<open>RuntimeError\<close> that replaces it when it leaves the
  driver's coroutine.
\<close>

theorem stop_iteration_is_replaced:
  "fst (list_of_stream test_host
        \<lparr>self_print_fn = append_print_fn,
         self_response_provider = Some (\<lambda>n. Inl StopAsyncIteration)\<rparr>
        get_args empty_world)
     = Inl (RuntimeError ''async generator raised StopAsyncIteration'')
   \<and> fst (list_of_stream test_host
        \<lparr>self_print_fn = append_print_fn,
         self_response_provider = Some (\<lambda>n. Inl StopAsyncIteration)\<rparr>
        get_args empty_world)
     \<noteq> Inl StopAsyncIteration
   \<and> fst (get_response test_host
        \<lparr>self_print_fn = append_print_fn,
         self_response_provider = Some (\<lambda>n. Inl StopIteration)\<rparr>
        get_args empty_world)
     = Inl (RuntimeError ''coroutine raised StopIteration'')
   \<and> fst (get_response test_host
        \<lparr>self_print_fn = append_print_fn,
         self_response_provider = Some (\<lambda>n. Inl StopIteration)\<rparr>
        get_args empty_world)
     \<noteq> Inl StopIteration"
proof -
  let ?stream_model = "\<lparr>self_print_fn = append_print_fn,
                        self_response_provider = Some (\<lambda>n. Inl StopAsyncIteration)\<rparr>"
  let ?get_model = "\<lparr>self_print_fn = append_print_fn,
                     self_response_provider = Some (\<lambda>n. Inl StopIteration)\<rparr>"
  have norm: "input_to_new_input_list test_host (arg_input get_args) (heap empty_world) =
      (Inr 1, [ItemObj [(''content'', ''Hello''), (''role'', ''user'')], ListObj [0]])"
    using test_normalized by (simp add: get_args_def)
  have hl: "format_handoffs (arg_handoffs get_args) =
      Inr [''  - Helper via `transfer_to_helper`: Transfer to helper agent.'']"
    using test_handoff_lines by (simp add: get_args_def)
  have pr: "self_print_fn ?stream_model = (\<lambda>line. None)"
    and pr': "self_print_fn ?get_model = (\<lambda>line. None)"
    by (simp_all add: append_print_fn_def)
  have "fst (list_of_stream test_host ?stream_model get_args empty_world)
     = Inl (RuntimeError ''async generator raised StopAsyncIteration'')"
    by (simp add: list_of_stream_fst stream_body_reply [OF norm pr hl] provider_outcome_def)
  moreover have "fst (get_response test_host ?get_model get_args empty_world)
     = Inl (RuntimeError ''coroutine raised StopIteration'')"
    by (simp add: get_response_reply [OF norm pr' hl] provider_outcome_def)
  ultimately show ?thesis
    by simp
qed

text \<open>
  C7, amended: if the reply provider, reached after the transcript, raises an error or
  is cancelled, neither operation retries, substitutes a reply, swallows the error or
  returns a response or an event: the call fails, and the provider has been invoked
  exactly once. The error that the caller gets is the provider's own, unmodified,
  unless it is \<open>StopIteration\<close> or \<open>StopAsyncIteration\<close>: a \<open>StopIteration\<close> leaves the
  driver and \<open>get_response\<close> as \<open>RuntimeError\<close> ("coroutine raised StopIteration"), and
  a \<open>StopAsyncIteration\<close> leaves the stream of \<open>stream_response\<close> as \<open>RuntimeError\<close>
  ("async generator raised StopAsyncIteration"). The provider is the injected one, or
  the default one raising at the end of standard input.
\<close>

theorem provider_failure_reaches_caller:
  assumes "input_to_new_input_list h (arg_input args) (heap w) = (Inr items, hp)"
    and "self_print_fn self = (\<lambda>line. None)"
    and "format_handoffs (arg_handoffs args) = Inr handoff_lines"
    and "provider_outcome (self_response_provider self) w = Inl e"
  shows "fst (manual_prompt_interaction h (arg_system_instructions args) (arg_input args)
           (arg_tools args) (arg_handoffs args) (arg_prompt args) (self_print_fn self)
           (self_response_provider self) w) = Inl (coroutine_exit e)
         \<and> fst (get_response h self args w) = Inl (coroutine_exit e)
         \<and> provider_calls (snd (get_response h self args w)) = Suc (provider_calls w)
         \<and> fst (list_of_stream h self args w) = Inl (agen_exit (coroutine_exit e))
         \<and> provider_calls (snd (list_of_stream h self args w)) = Suc (provider_calls w)
         \<and> (e \<noteq> StopIteration \<longrightarrow> fst (get_response h self args w) = Inl e)
         \<and> (e \<noteq> StopIteration \<and> e \<noteq> StopAsyncIteration
              \<longrightarrow> fst (list_of_stream h self args w) = Inl e)"
proof -
  have driver: "fst (manual_prompt_interaction h (arg_system_instructions args) (arg_input args)
           (arg_tools args) (arg_handoffs args) (arg_prompt args) (self_print_fn self)
           (self_response_provider self) w) = Inl (coroutine_exit e)"
    by (simp add: interaction_outcome(1) [OF assms(1-3)] assms(4))
  have get: "fst (get_response h self args w) = Inl (coroutine_exit e)"
    by (simp add: get_response_reply [OF assms(1-3)] assms(4))
  have get_calls: "provider_calls (snd (get_response h self args w)) = Suc (provider_calls w)"
    by (simp add: get_response_snd interaction_outcome(2) [OF assms(1-3)])
  have stream: "fst (list_of_stream h self args w) = Inl (agen_exit (coroutine_exit e))"
    by (simp add: list_of_stream_fst stream_body_reply [OF assms(1-3)] assms(4))
  have stream_calls:
    "provider_calls (snd (list_of_stream h self args w)) = Suc (provider_calls w)"
    by (simp add: list_of_stream_snd stream_response_body_snd
        interaction_outcome(2) [OF assms(1-3)])
  have get_same: "fst (get_response h self args w) = Inl e" if "e \<noteq> StopIteration"
    using that get by (cases e) simp_all
  have stream_same: "fst (list_of_stream h self args w) = Inl e"
    if "e \<noteq> StopIteration \<and> e \<noteq> StopAsyncIteration"
    using that stream by (simp add: agen_exit_coroutine_exit)
  from driver get get_calls stream stream_calls get_same stream_same show ?thesis
    by blast
qed

theorem provider_failure_reaches_caller_witness:
  "provider_outcome (Some (\<lambda>n. Inl CancelledError)) empty_world = Inl CancelledError
   \<and> CancelledError \<noteq> StopIteration \<and> CancelledError \<noteq> StopAsyncIteration
   \<and> fst (get_response test_host
        \<lparr>self_print_fn = append_print_fn, self_response_provider = Some (\<lambda>n. Inl CancelledError)\<rparr>
        get_args empty_world) = Inl CancelledError
   \<and> provider_calls (snd (get_response test_host
        \<lparr>self_print_fn = append_print_fn, self_response_provider = Some (\<lambda>n. Inl CancelledError)\<rparr>
        get_args empty_world)) = 1
   \<and> fst (list_of_stream test_host
        \<lparr>self_print_fn = append_print_fn, self_response_provider = Some (\<lambda>n. Inl CancelledError)\<rparr>
        get_args empty_world) = Inl CancelledError
   \<and> provider_calls (snd (list_of_stream test_host
        \<lparr>self_print_fn = append_print_fn, self_response_provider = Some (\<lambda>n. Inl CancelledError)\<rparr>
        get_args empty_world)) = 1"
proof -
  let ?model = "\<lparr>self_print_fn = append_print_fn,
                 self_response_provider = Some (\<lambda>n. Inl CancelledError)\<rparr>"
  have norm: "input_to_new_input_list test_host (arg_input get_args) (heap empty_world) =
      (Inr 1, [ItemObj [(''content'', ''Hello''), (''role'', ''user'')], ListObj [0]])"
    using test_normalized by (simp add: get_args_def)
  have pr: "self_print_fn ?model = (\<lambda>line. None)"
    by (simp add: append_print_fn_def)
  have hl: "format_handoffs (arg_handoffs get_args) =
      Inr [''  - Helper via `transfer_to_helper`: Transfer to helper agent.'']"
    using test_handoff_lines by (simp add: get_args_def)
  have out: "provider_outcome (self_response_provider ?model) empty_world = Inl CancelledError"
    by (simp add: provider_outcome_def)
  have calls: "provider_calls empty_world = 0"
    by (simp add: empty_world_def)
  from provider_failure_reaches_caller [OF norm pr hl out] out calls show ?thesis
    by simp
qed

text \<open>
  C9: if normalization of the conversation input raises, the driver, \<open>get_response\<close>
  and the stream of \<open>stream_response\<close> fail before any output: no line has been passed
  to the print function, not even the header, and the reply provider has not been
  invoked. The failure is the error of the normalization, as it leaves the coroutine
  and the generator: the very same error unless it is \<open>StopIteration\<close> or
  \<open>StopAsyncIteration\<close>.
\<close>

theorem normalization_failure_prints_nothing:
  assumes "input_to_new_input_list h inp (heap w) = (Inl e, hp)"
    and "arg_input args = inp"
  shows "fst (manual_prompt_interaction h system_instructions inp tools handoffs prompt print_fn
           response_provider w) = Inl (coroutine_exit e)
       \<and> printed (snd (manual_prompt_interaction h system_instructions inp tools handoffs prompt
           print_fn response_provider w)) = printed w
       \<and> provider_calls (snd (manual_prompt_interaction h system_instructions inp tools handoffs
           prompt print_fn response_provider w)) = provider_calls w
       \<and> fst (get_response h self args w) = Inl (coroutine_exit e)
       \<and> printed (snd (get_response h self args w)) = printed w
       \<and> provider_calls (snd (get_response h self args w)) = provider_calls w
       \<and> fst (list_of_stream h self args w) = Inl (agen_exit (coroutine_exit e))
       \<and> printed (snd (list_of_stream h self args w)) = printed w
       \<and> provider_calls (snd (list_of_stream h self args w)) = provider_calls w
       \<and> (e \<noteq> StopIteration \<and> e \<noteq> StopAsyncIteration \<longrightarrow>
            fst (manual_prompt_interaction h system_instructions inp tools handoffs prompt
              print_fn response_provider w) = Inl e
            \<and> fst (get_response h self args w) = Inl e
            \<and> fst (list_of_stream h self args w) = Inl e)"
proof -
  note run = interaction_not_normalized [OF assms(1)]
  have same: "coroutine_exit e = e \<and> agen_exit (coroutine_exit e) = e"
    if "e \<noteq> StopIteration \<and> e \<noteq> StopAsyncIteration"
    using that by (cases e) simp_all
  have "fst (manual_prompt_interaction h system_instructions inp tools handoffs prompt print_fn
           response_provider w) = Inl (coroutine_exit e)"
    and "printed (snd (manual_prompt_interaction h system_instructions inp tools handoffs prompt
           print_fn response_provider w)) = printed w"
    and "provider_calls (snd (manual_prompt_interaction h system_instructions inp tools handoffs
           prompt print_fn response_provider w)) = provider_calls w"
    by (simp_all add: run)
  moreover have "fst (get_response h self args w) = Inl (coroutine_exit e)"
    and "printed (snd (get_response h self args w)) = printed w"
    and "provider_calls (snd (get_response h self args w)) = provider_calls w"
    by (simp_all add: get_response_fst get_response_snd assms(2) run coroutine_exit_twice)
  moreover have "fst (list_of_stream h self args w) = Inl (agen_exit (coroutine_exit e))"
    and "printed (snd (list_of_stream h self args w)) = printed w"
    and "provider_calls (snd (list_of_stream h self args w)) = provider_calls w"
    by (simp_all add: list_of_stream_fst list_of_stream_snd stream_response_body_fst
        stream_response_body_snd assms(2) run)
  ultimately show ?thesis
    using same by auto
qed

theorem normalization_failure_prints_nothing_witness:
  "input_to_new_input_list test_host (InputList 7) (heap empty_world) =
     (Inl (Raised ''TypeError''), [])
   \<and> fst (get_response test_host (test_model [''Manual reply''])
        (get_args\<lparr>arg_input := InputList 7\<rparr>) empty_world) = Inl (Raised ''TypeError'')
   \<and> printed (snd (get_response test_host (test_model [''Manual reply''])
        (get_args\<lparr>arg_input := InputList 7\<rparr>) empty_world)) = []
   \<and> provider_calls (snd (get_response test_host (test_model [''Manual reply''])
        (get_args\<lparr>arg_input := InputList 7\<rparr>) empty_world)) = 0"
proof -
  have norm: "input_to_new_input_list test_host (InputList 7) (heap empty_world) =
     (Inl (Raised ''TypeError''), [])"
    by (simp add: test_host_def empty_world_def spec_input_to_new_input_list_def heap_lookup_def)
  have inp: "arg_input (get_args\<lparr>arg_input := InputList 7\<rparr>) = InputList 7"
    by simp
  have start: "printed empty_world = []" "provider_calls empty_world = 0"
    by (simp_all add: empty_world_def)
  from normalization_failure_prints_nothing [OF norm inp, of None "[]" "[]" None append_print_fn
      None "test_model [''Manual reply'']"] norm start
  show ?thesis
    by simp
qed

subsection \<open>Laziness of the stream\<close>

text \<open>
  C10: calling \<open>stream_response\<close> returns the generator and leaves the world as it was:
  nothing is printed and the provider is not invoked. The transcript is printed and the
  provider invoked by the first step of the iteration, when normalization returns, the
  print function returns and the handoffs have their attributes.
\<close>

theorem stream_response_is_lazy:
  "\<exists>g. stream_response self args w = (Inr g, w)
       \<and> (input_to_new_input_list h (arg_input args) (heap w) = (Inr items, hp)
            \<and> self_print_fn self = (\<lambda>line. None)
            \<and> format_handoffs (arg_handoffs args) = Inr handoff_lines
          \<longrightarrow> printed (snd (snd (anext h g w))) =
                printed w @ printed_transcript (arg_system_instructions args)
                  (pformat_items h hp items) (map_option (pformat_prompt h) (arg_prompt args))
                  (arg_tools args) (map tool_line (arg_tools args)) (arg_handoffs args)
                  handoff_lines
              \<and> provider_calls (snd (snd (anext h g w))) = Suc (provider_calls w))"
proof -
  let ?g = "\<lparr>gen_self = self, gen_args = args, gen_state = Created\<rparr>"
  have call: "stream_response self args w = (Inr ?g, w)"
    by (simp add: stream_response_def return_io_def)
  have step: "snd (snd (anext h ?g w)) = snd (stream_response_body h self args w)"
    by (simp add: anext_created split: prod.splits sum.splits)
  have "printed (snd (snd (anext h ?g w))) =
          printed w @ printed_transcript (arg_system_instructions args)
            (pformat_items h hp items) (map_option (pformat_prompt h) (arg_prompt args))
            (arg_tools args) (map tool_line (arg_tools args)) (arg_handoffs args) handoff_lines
        \<and> provider_calls (snd (snd (anext h ?g w))) = Suc (provider_calls w)"
    if "input_to_new_input_list h (arg_input args) (heap w) = (Inr items, hp)"
      and "self_print_fn self = (\<lambda>line. None)"
      and "format_handoffs (arg_handoffs args) = Inr handoff_lines"
    using interaction_outcome(2,3) [OF that]
    by (simp add: step stream_response_body_snd)
  with call show ?thesis
    by blast
qed

theorem stream_response_is_lazy_witness:
  "\<exists>g. stream_response (test_model [''Streamed manual response'']) stream_args ping_world
         = (Inr g, ping_world)
       \<and> printed (snd (snd (anext test_host g ping_world))) =
           [''=== Manual model interaction ==='',
            ''System instructions: <none>'',
            ''Conversation items:'',
            ''role: user; content: Ping; '',
            ''Available tools: none'',
            ''Available handoffs: none'',
            ''Provide the next assistant message.'']
       \<and> provider_calls (snd (snd (anext test_host g ping_world))) = 1"
proof -
  have hl: "format_handoffs (arg_handoffs stream_args) = Inr []"
    by (simp add: stream_args_def no_handoff_lines)
  have start: "printed ping_world = []" "provider_calls ping_world = 0"
    by (simp_all add: ping_world_def empty_world_def)
  have tr: "printed_transcript (arg_system_instructions stream_args)
      (pformat_items test_host
         [ItemObj [(''role'', ''user''), (''content'', ''Ping'')], ListObj [0],
          ItemObj [(''role'', ''user''), (''content'', ''Ping'')], ListObj [2]] 3)
      (map_option (pformat_prompt test_host) (arg_prompt stream_args))
      (arg_tools stream_args) (map tool_line (arg_tools stream_args)) (arg_handoffs stream_args)
      [] =
     [''=== Manual model interaction ==='',
      ''System instructions: <none>'',
      ''Conversation items:'',
      ''role: user; content: Ping; '',
      ''Available tools: none'',
      ''Available handoffs: none'',
      ''Provide the next assistant message.'']"
    by (simp add: printed_transcript_def transcript_tail_def stream_args_def test_host_def
        show_items_def heap_lookup_def)
  from stream_response_is_lazy [of "test_model [''Streamed manual response'']" stream_args
      ping_world test_host 3
      "[ItemObj [(''role'', ''user''), (''content'', ''Ping'')], ListObj [0],
        ItemObj [(''role'', ''user''), (''content'', ''Ping'')], ListObj [2]]" "[]"]
    ping_normalized test_model_fields(1) hl
  show ?thesis
    by (simp add: start tr)
qed

subsection \<open>The caller's input\<close>

text \<open>
  C8: with the normalization of the host framework as the specification describes it,
  neither \<open>get_response\<close> nor the stream of \<open>stream_response\<close> changes an object that
  existed before the call: after the call every address holds the object it held
  before, the caller's input list and each of its items among them. Normalization
  allocates the canonical sequence and the module writes to no object.
\<close>

theorem conversation_input_unchanged:
  assumes "input_to_new_input_list h = spec_input_to_new_input_list"
  shows "\<forall>a obj. heap_lookup (heap w) a = Some obj \<longrightarrow>
           heap_lookup (heap (snd (get_response h self args w))) a = Some obj
           \<and> heap_lookup (heap (snd (list_of_stream h self args w))) a = Some obj"
proof (intro allI impI)
  fix a obj
  assume a: "heap_lookup (heap w) a = Some obj"
  have ext: "heap_extends (heap w)
      (heap (snd (manual_prompt_interaction h (arg_system_instructions args) (arg_input args)
         (arg_tools args) (arg_handoffs args) (arg_prompt args) (self_print_fn self)
         (self_response_provider self) w)))"
    by (simp add: interaction_heap assms spec_normalization_extends)
  have "heap_lookup (heap (snd (get_response h self args w))) a = Some obj"
    using heap_extends_lookup [OF ext a] by (simp add: get_response_snd)
  moreover have "heap_lookup (heap (snd (list_of_stream h self args w))) a = Some obj"
    using heap_extends_lookup [OF ext a]
    by (simp add: list_of_stream_snd stream_response_body_snd)
  ultimately show "heap_lookup (heap (snd (get_response h self args w))) a = Some obj
           \<and> heap_lookup (heap (snd (list_of_stream h self args w))) a = Some obj"
    by simp
qed

theorem conversation_input_unchanged_witness:
  "heap_lookup (heap ping_world) 1 = Some (ListObj [0])
   \<and> heap_lookup (heap ping_world) 0 = Some (ItemObj [(''role'', ''user''), (''content'', ''Ping'')])
   \<and> heap_lookup (heap (snd (get_response test_host (test_model [''Manual reply''])
        stream_args ping_world))) 1 = Some (ListObj [0])
   \<and> heap_lookup (heap (snd (get_response test_host (test_model [''Manual reply''])
        stream_args ping_world))) 0 = Some (ItemObj [(''role'', ''user''), (''content'', ''Ping'')])
   \<and> heap_lookup (heap (snd (list_of_stream test_host (test_model [''Manual reply''])
        stream_args ping_world))) 1 = Some (ListObj [0])
   \<and> heap_lookup (heap (snd (list_of_stream test_host (test_model [''Manual reply''])
        stream_args ping_world))) 0 = Some (ItemObj [(''role'', ''user''), (''content'', ''Ping'')])"
proof -
  have host: "input_to_new_input_list test_host = spec_input_to_new_input_list"
    by (simp add: test_host_def)
  have l: "heap_lookup (heap ping_world) 1 = Some (ListObj [0])"
    and i: "heap_lookup (heap ping_world) 0
            = Some (ItemObj [(''role'', ''user''), (''content'', ''Ping'')])"
    by (simp_all add: ping_world_def empty_world_def heap_lookup_def)
  note t = conversation_input_unchanged [OF host, of ping_world "test_model [''Manual reply'']"
      stream_args]
  from t l i show ?thesis
    by blast
qed

end
